theory Spec2Isabelle
  imports Main "HOL-Library.AList"
begin

section \<open>Data model\<close>

text \<open>
  The types of \<^verbatim>\<open>models/types.ts\<close> (client) and \<^verbatim>\<open>server/src/types.ts\<close>.
  String unions are datatypes. A timestamp is an ISO-8601 string in the source, produced
  by \<^verbatim>\<open>new Date().toISOString()\<close> and compared through
  \<^verbatim>\<open>new Date(s).getTime()\<close>; it is modelled by that number of milliseconds.
\<close>

datatype SyncStatus = PENDING | SYNCED | ERROR
datatype CheckResult = PASS | FAIL
datatype Answer = YES | NO
datatype Priority = LOW | MED | HIGH
datatype FaultStatus = OPEN | CLOSED

type_synonym timestamp = int

record Asset =
  asset_id :: string
  name :: string
  machine_class :: string
  qr_code_value :: string

text \<open>A checklist; its \<^verbatim>\<open>items\<close> are read by no operation below and are left out.\<close>

datatype ChecklistStatus = ACTIVE | INACTIVE

record Checklist =
  checklist_id :: string
  machine_class :: string
  status :: ChecklistStatus
  version :: string

text \<open>
  \<^verbatim>\<open>calculateCheckResult\<close> accepts any array of objects with an \<^verbatim>\<open>answer\<close> field
  of type \<^verbatim>\<open>'YES' | 'NO' | null\<close>; the form item is one such object.
\<close>

record answered =
  answer :: "Answer option"

record CheckFormItem = answered +
  item_id :: string
  text_of :: string
  priority :: Priority
  comment :: string
  isValid :: bool

text \<open>
  A fault as the server stores it, and with the two client-only fields. The fields
  \<^verbatim>\<open>origin\<close>, \<^verbatim>\<open>priority\<close> and \<^verbatim>\<open>reporter\<close> are copied by every operation below and
  read by none; they are left out.
\<close>

record server_fault =
  fault_id :: string
  asset_id :: string
  status :: FaultStatus
  description :: string
  source_event_id :: "string option"
  created_at :: timestamp
  updated_at :: timestamp

record client_fault = server_fault +
  sync_status :: SyncStatus
  last_error :: "string option"

text \<open>
  The pre-shift check event as the server stores it, and with the two client-only fields.
  \<^verbatim>\<open>checklist_snapshot\<close>, \<^verbatim>\<open>responses\<close> and \<^verbatim>\<open>reporter\<close> are copied by every operation
  below and read by none; they are left out. The server tests the id only for falsiness
  (\<^verbatim>\<open>!event.event_id\<close>, \<^verbatim>\<open>event.event_id || 'unknown'\<close>), so an absent id and the
  empty string are the same value here: the empty string.
\<close>

record server_event =
  event_id :: string
  asset_id :: string
  machine_class :: string
  started_at :: timestamp
  completed_at :: timestamp
  created_at :: timestamp
  updated_at :: timestamp
  result :: CheckResult

record client_event = server_event +
  sync_status :: SyncStatus
  last_error :: "string option"

text \<open>\<^verbatim>\<open>BatchResponse\<close>; an entry of \<^verbatim>\<open>errors\<close> is the pair \<^verbatim>\<open>(id, error)\<close>.\<close>

record BatchResponse =
  processed :: nat
  created :: nat
  updated :: nat
  errors :: "(string \<times> string) list"

text \<open>
  A value that JavaScript throws, or a promise rejects with. The handlers test
  \<^verbatim>\<open>error instanceof Error\<close> and read \<^verbatim>\<open>error.message\<close>.
\<close>

datatype exn = Error string | NonError

definition message_or :: "exn \<Rightarrow> string \<Rightarrow> string" where
  "message_or e fallback = (case e of Error m \<Rightarrow> m | NonError \<Rightarrow> fallback)"


section \<open>Server: the in-memory store and the upsert handlers\<close>

text \<open>
  \<^verbatim>\<open>db.events\<close> and \<^verbatim>\<open>db.faults\<close> are JavaScript \<^verbatim>\<open>Map\<close>s: an association list with
  distinct keys in insertion order. \<^verbatim>\<open>get\<close> is \<^const>\<open>map_of\<close> and \<^verbatim>\<open>set\<close> is
  \<^const>\<open>AList.update\<close>, which replaces the value of a present key in place and appends an
  absent one.
\<close>

type_synonym 'v js_map = "(string \<times> 'v) list"

text \<open>The reply of a single upsert: status 400, 200 with action updated, 201 with action created.\<close>

datatype 'r upsert_reply = BadRequest string | Updated 'r | Created 'r

text \<open>\<^verbatim>\<open>app.post('/api/events')\<close>, with \<^verbatim>\<open>now\<close> the clock reading of the request.\<close>

definition post_event ::
  "timestamp \<Rightarrow> server_event \<Rightarrow> server_event js_map
    \<Rightarrow> server_event upsert_reply \<times> server_event js_map" where
  "post_event now event events =
     (if event_id event = [] then (BadRequest ''event_id is required'', events)
      else case map_of events (event_id event) of
        Some existing \<Rightarrow>
          (let updated = event\<lparr>server_event.updated_at := now\<rparr>
           in (Updated updated, AList.update (event_id event) updated events))
      | None \<Rightarrow>
          (let created = event\<lparr>server_event.created_at := now, server_event.updated_at := now\<rparr>
           in (Created created, AList.update (event_id event) created events)))"

text \<open>
  An element of the request array is a JSON value. The handlers only read the id of an
  element (\<^verbatim>\<open>event.event_id\<close>) and spread it: an object is a record, and \<^verbatim>\<open>null\<close>, on
  which the read throws a \<^verbatim>\<open>TypeError\<close>, is \<^const>\<open>None\<close>. A number, string, boolean
  or array has no id and goes the way of an object without one. The message of the
  error is the engine's text.
\<close>

definition null_TypeError :: exn where
  "null_TypeError = Error ''Cannot read properties of null''"

text \<open>
  What ends a request without a \<^verbatim>\<open>BatchResponse\<close>: status 400 of the handler, or status
  500 of the error middleware when the handler throws.
\<close>

datatype http_error = Status400 string | Status500 string

text \<open>
  The loop of \<^verbatim>\<open>app.post('/api/events/batch')\<close> over the response under construction and
  the store. On an object nothing in the \<^verbatim>\<open>try\<close> block throws. On \<^verbatim>\<open>null\<close> the test
  \<^verbatim>\<open>!event.event_id\<close> throws, and the \<^verbatim>\<open>catch\<close> clause, which reads
  \<^verbatim>\<open>event.event_id || 'unknown'\<close>, throws again: the error leaves the loop and the
  handler, with the response and the store as the records before have made them. The
  loop returns what it throws, if it throws.
\<close>

fun events_batch_loop ::
  "timestamp \<Rightarrow> server_event option list \<Rightarrow> BatchResponse \<times> server_event js_map
    \<Rightarrow> exn option \<times> BatchResponse \<times> server_event js_map" where
  "events_batch_loop now [] st = (None, st)"
| "events_batch_loop now (None # rest) st = (Some null_TypeError, st)"
| "events_batch_loop now (Some event # rest) (response, events) =
     events_batch_loop now rest
       (if event_id event = [] then
          (response\<lparr>errors := errors response @ [(''unknown'', ''event_id is required'')]\<rparr>, events)
        else case map_of events (event_id event) of
          Some existing \<Rightarrow>
            (response\<lparr>updated := updated response + 1\<rparr>,
             AList.update (event_id event) (event\<lparr>server_event.updated_at := now\<rparr>) events)
        | None \<Rightarrow>
            (response\<lparr>created := created response + 1\<rparr>,
             AList.update (event_id event)
               (event\<lparr>server_event.created_at := now, server_event.updated_at := now\<rparr>) events))"

text \<open>
  \<^verbatim>\<open>app.post('/api/events/batch')\<close>: the body's \<^verbatim>\<open>events\<close> is \<^const>\<open>None\<close> when it is
  not an array (status 400). An error that the loop throws reaches the error middleware,
  which answers \<^verbatim>\<open>{ error: 'Internal server error', message }\<close> with status 500.
\<close>

definition post_events_batch ::
  "timestamp \<Rightarrow> server_event option list option \<Rightarrow> server_event js_map
    \<Rightarrow> (http_error + BatchResponse) \<times> server_event js_map" where
  "post_events_batch now body events =
     (case body of
        None \<Rightarrow> (Inl (Status400 ''events array is required''), events)
      | Some evs \<Rightarrow>
          (case events_batch_loop now evs
                  (\<lparr>processed = length evs, created = 0, updated = 0, errors = []\<rparr>, events) of
             (None, response, events') \<Rightarrow> (Inr response, events')
           | (Some err, response, events') \<Rightarrow>
               (Inl (Status500 ''Internal server error''), events')))"

text \<open>\<^verbatim>\<open>app.post('/api/faults/batch')\<close>, the same loop over \<^verbatim>\<open>db.faults\<close>.\<close>

fun faults_batch_loop ::
  "timestamp \<Rightarrow> server_fault option list \<Rightarrow> BatchResponse \<times> server_fault js_map
    \<Rightarrow> exn option \<times> BatchResponse \<times> server_fault js_map" where
  "faults_batch_loop now [] st = (None, st)"
| "faults_batch_loop now (None # rest) st = (Some null_TypeError, st)"
| "faults_batch_loop now (Some fault # rest) (response, faults) =
     faults_batch_loop now rest
       (if fault_id fault = [] then
          (response\<lparr>errors := errors response @ [(''unknown'', ''fault_id is required'')]\<rparr>, faults)
        else case map_of faults (fault_id fault) of
          Some existing \<Rightarrow>
            (response\<lparr>updated := updated response + 1\<rparr>,
             AList.update (fault_id fault) (fault\<lparr>server_fault.updated_at := now\<rparr>) faults)
        | None \<Rightarrow>
            (response\<lparr>created := created response + 1\<rparr>,
             AList.update (fault_id fault)
               (fault\<lparr>server_fault.created_at := now, server_fault.updated_at := now\<rparr>) faults))"

definition post_faults_batch ::
  "timestamp \<Rightarrow> server_fault option list option \<Rightarrow> server_fault js_map
    \<Rightarrow> (http_error + BatchResponse) \<times> server_fault js_map" where
  "post_faults_batch now body faults =
     (case body of
        None \<Rightarrow> (Inl (Status400 ''faults array is required''), faults)
      | Some fs \<Rightarrow>
          (case faults_batch_loop now fs
                  (\<lparr>processed = length fs, created = 0, updated = 0, errors = []\<rparr>, faults) of
             (None, response, faults') \<Rightarrow> (Inr response, faults')
           | (Some err, response, faults') \<Rightarrow>
               (Inl (Status500 ''Internal server error''), faults')))"

text \<open>
  \<^verbatim>\<open>app.get('/api/events/last-failed/:asset_id')\<close>. \<^verbatim>\<open>Array.prototype.sort\<close> is stable and
  the comparator \<^verbatim>\<open>b - a\<close> orders by descending \<^verbatim>\<open>completed_at\<close>: a stable insertion
  sort on the negated time.
\<close>

definition sort_completed_at_desc :: "('a server_event_scheme) list \<Rightarrow> ('a server_event_scheme) list" where
  "sort_completed_at_desc es = sort_key (\<lambda>e. - completed_at e) es"

definition get_last_failed :: "string \<Rightarrow> server_event js_map \<Rightarrow> server_event option" where
  "get_last_failed assetId events =
     (let assetEvents =
            sort_completed_at_desc
              (filter (\<lambda>e. server_event.asset_id e = assetId) (map snd events))
      in case assetEvents of
           [] \<Rightarrow> None
         | lastEvent # _ \<Rightarrow> (if result lastEvent = PASS then None else Some lastEvent))"


section \<open>Client: the result of a check\<close>

text \<open>\<^verbatim>\<open>UtilsService.calculateCheckResult\<close>.\<close>

definition calculateCheckResult :: "('a answered_scheme) list \<Rightarrow> CheckResult" where
  "calculateCheckResult responses =
     (if list_all (\<lambda>r. answer r = Some YES) responses then PASS else FAIL)"

text \<open>
  \<^verbatim>\<open>PreShiftCheckComponent.willPass\<close> over the form items, and the \<^verbatim>\<open>result\<close> field that
  \<^verbatim>\<open>createEvent\<close> computes from it.
\<close>

definition willPass :: "CheckFormItem list \<Rightarrow> bool" where
  "willPass formItems = list_all (\<lambda>item. answer item = Some YES) formItems"

definition createEvent_result :: "CheckFormItem list \<Rightarrow> CheckResult" where
  "createEvent_result formItems = (if willPass formItems then PASS else FAIL)"


section \<open>Client: the local store (\<^verbatim>\<open>DatabaseService\<close>)\<close>

text \<open>
  An \<^verbatim>\<open>AppMeta\<close> value: the code stores strings (the reporter's name and user id), the
  time of the last sync, and \<^verbatim>\<open>null\<close> (here \<^const>\<open>None\<close>).
\<close>

datatype meta_value = Str string | Time timestamp

text \<open>JavaScript truthiness of such a value: \<^verbatim>\<open>null\<close> and the empty string are falsy.\<close>

fun truthy :: "meta_value option \<Rightarrow> bool" where
  "truthy None = False"
| "truthy (Some (Str s)) = (s \<noteq> [])"
| "truthy (Some (Time t)) = True"

record Reporter =
  name :: meta_value
  user_id :: "meta_value option"

datatype SyncState = idle | syncing | success | error

text \<open>
  \<^verbatim>\<open>DatabaseService\<close> is taken in the version with \<^verbatim>\<open>waitForInit\<close>, which the
  components are written against; \<^verbatim>\<open>services/database.service.ts\<close> has the same table
  operations and differs in \<^verbatim>\<open>getMeta\<close> and \<^verbatim>\<open>getReporter\<close>, which there have no
  handler. The signals for the cache statistics are left out: no operation below reads
  them.

  The state of the client: the Dexie tables of \<^verbatim>\<open>PreShiftCheckDB\<close>, the signals of
  \<^verbatim>\<open>DatabaseService\<close>, and the fields of \<^verbatim>\<open>SyncService\<close>. A table is an association list
  on its primary key: \<^verbatim>\<open>put\<close> is \<^const>\<open>AList.update\<close>, \<^verbatim>\<open>update(key, changes)\<close> is
  \<^const>\<open>AList.map_entry\<close> (nothing happens when the key is absent), \<^verbatim>\<open>delete\<close> is
  \<^const>\<open>AList.delete\<close>. Dexie returns rows in index order; the model returns them in stored
  order, and no statement below depends on the order of rows.
\<close>

record client_state =
  assets :: "Asset js_map"
  activeChecklists :: "Checklist js_map"
  events :: "client_event js_map"
  faults :: "client_fault js_map"
  appMeta :: "(meta_value option) js_map"
  lastFailedChecks :: "server_event js_map"
  pendingEventsCount :: nat
  pendingFaultsCount :: nat
  lastSyncAt :: "meta_value option"
  reporterName :: "meta_value option"
  syncState :: SyncState
  syncMessage :: string
  isOnline :: bool
  syncInProgress :: bool

text \<open>
  What the outside does during a run: the outcome of each call of \<^verbatim>\<open>ApiService\<close>
  (\<^const>\<open>Inl\<close> when the promise rejects; \<^verbatim>\<open>getLastFailedCheck\<close> catches every failure and
  never rejects), and whether the IndexedDB read of an \<^verbatim>\<open>appMeta\<close> key rejects. All other
  storage operations are taken to succeed.
\<close>

record env =
  meta_read_error :: "string \<Rightarrow> exn option"
  api_getAssets :: "exn + Asset list"
  api_getAllChecklists :: "exn + Checklist list"
  api_batchUpsertEvents :: "server_event list \<Rightarrow> exn + BatchResponse"
  api_batchUpsertFaults :: "server_fault list \<Rightarrow> exn + BatchResponse"
  api_getOpenFaultsByAsset :: "string \<Rightarrow> exn + server_fault list"
  api_getLastFailedCheck :: "string \<Rightarrow> server_event option"

text \<open>\<^verbatim>\<open>Table.bulkPut\<close>: one \<^verbatim>\<open>put\<close> per row, in order.\<close>

definition bulkPut :: "('v \<Rightarrow> string) \<Rightarrow> 'v list \<Rightarrow> 'v js_map \<Rightarrow> 'v js_map" where
  "bulkPut key rows table = fold (\<lambda>row. AList.update (key row) row) rows table"

definition saveAssets :: "Asset list \<Rightarrow> client_state \<Rightarrow> client_state" where
  "saveAssets new_assets c = c\<lparr>assets := bulkPut Asset.asset_id new_assets (assets c)\<rparr>"

definition saveChecklists :: "Checklist list \<Rightarrow> client_state \<Rightarrow> client_state" where
  "saveChecklists checklists c =
     (let active = filter (\<lambda>cl. Checklist.status cl = ACTIVE) checklists
      in c\<lparr>activeChecklists := bulkPut checklist_id active (activeChecklists c)\<rparr>)"

text \<open>\<^verbatim>\<open>where('sync_status').anyOf(['PENDING', 'ERROR'])\<close>.\<close>

definition getPendingEvents :: "client_state \<Rightarrow> client_event list" where
  "getPendingEvents c =
     filter (\<lambda>e. client_event.sync_status e = PENDING \<or> client_event.sync_status e = ERROR)
       (map snd (events c))"

definition getPendingFaults :: "client_state \<Rightarrow> client_fault list" where
  "getPendingFaults c =
     filter (\<lambda>f. client_fault.sync_status f = PENDING \<or> client_fault.sync_status f = ERROR)
       (map snd (faults c))"



definition refreshPendingCounts :: "client_state \<Rightarrow> client_state" where
  "refreshPendingCounts c =
     c\<lparr>pendingEventsCount := length (getPendingEvents c),
       pendingFaultsCount := length (getPendingFaults c)\<rparr>"

text \<open>
  \<^verbatim>\<open>updateEventSyncStatus\<close> and \<^verbatim>\<open>updateFaultSyncStatus\<close>; \<^verbatim>\<open>now\<close> is the clock reading
  that \<^verbatim>\<open>updated_at\<close> receives, and an omitted \<^verbatim>\<open>error\<close> argument is \<^const>\<open>None\<close>.
\<close>

definition updateEventSyncStatus ::
  "timestamp \<Rightarrow> string \<Rightarrow> SyncStatus \<Rightarrow> string option \<Rightarrow> client_state \<Rightarrow> client_state" where
  "updateEventSyncStatus now eventId st err c =
     refreshPendingCounts
       (c\<lparr>events :=
            AList.map_entry eventId
              (\<lambda>e. e\<lparr>client_event.sync_status := st, client_event.last_error := err,
                      server_event.updated_at := now\<rparr>)
              (events c)\<rparr>)"

definition updateFaultSyncStatus ::
  "timestamp \<Rightarrow> string \<Rightarrow> SyncStatus \<Rightarrow> string option \<Rightarrow> client_state \<Rightarrow> client_state" where
  "updateFaultSyncStatus now faultId st err c =
     refreshPendingCounts
       (c\<lparr>faults :=
            AList.map_entry faultId
              (\<lambda>f. f\<lparr>client_fault.sync_status := st, client_fault.last_error := err,
                      server_fault.updated_at := now\<rparr>)
              (faults c)\<rparr>)"

text \<open>
  \<^verbatim>\<open>replaceSyncedFaultsForAsset\<close>: the server's faults carry no client-only field; the
  spread adds \<^verbatim>\<open>sync_status: 'SYNCED'\<close>.
\<close>

definition replaceSyncedFaultsForAsset ::
  "string \<Rightarrow> server_fault list \<Rightarrow> client_state \<Rightarrow> client_state" where
  "replaceSyncedFaultsForAsset assetId serverFaults c =
     (let kept =
            filter (\<lambda>(k, f). \<not> (server_fault.asset_id f = assetId
                                    \<and> client_fault.sync_status f = SYNCED)) (faults c);
          faultsWithSyncStatus =
            map (\<lambda>f. server_fault.extend f
                        \<lparr>client_fault.sync_status = SYNCED, client_fault.last_error = None\<rparr>)
              serverFaults
      in c\<lparr>faults := (if serverFaults \<noteq> [] then bulkPut fault_id faultsWithSyncStatus kept
                        else kept)\<rparr>)"

text \<open>The cache of last failed checks, keyed by \<^verbatim>\<open>asset_id\<close>.\<close>

definition saveLastFailedCheck ::
  "string \<Rightarrow> server_event option \<Rightarrow> client_state \<Rightarrow> client_state" where
  "saveLastFailedCheck assetId ev c =
     (case ev of
        Some e \<Rightarrow>
          c\<lparr>lastFailedChecks :=
               AList.update assetId (e\<lparr>server_event.asset_id := assetId\<rparr>) (lastFailedChecks c)\<rparr>
      | None \<Rightarrow> c\<lparr>lastFailedChecks := AList.delete assetId (lastFailedChecks c)\<rparr>)"

definition clearLastFailedChecksCache :: "client_state \<Rightarrow> client_state" where
  "clearLastFailedChecksCache c = c\<lparr>lastFailedChecks := []\<rparr>"

text \<open>
  \<^verbatim>\<open>getMeta\<close>: \<^verbatim>\<open>meta?.value ?? null\<close>; a read that rejects is caught and logged, and
  the answer is \<^verbatim>\<open>null\<close>.
\<close>

definition getMeta :: "env \<Rightarrow> string \<Rightarrow> client_state \<Rightarrow> meta_value option" where
  "getMeta ev key c =
     (case meta_read_error ev key of
        Some e \<Rightarrow> None
      | None \<Rightarrow> (case map_of (appMeta c) key of None \<Rightarrow> None | Some v \<Rightarrow> v))"

definition setMeta :: "string \<Rightarrow> meta_value option \<Rightarrow> client_state \<Rightarrow> client_state" where
  "setMeta key v c =
     (let c' = c\<lparr>appMeta := AList.update key v (appMeta c)\<rparr>
      in if key = ''lastSyncAt'' then c'\<lparr>lastSyncAt := v\<rparr>
         else if key = ''reporterName'' then c'\<lparr>reporterName := v\<rparr>
         else c')"

text \<open>
  \<^verbatim>\<open>getReporter\<close>: the body of its \<^verbatim>\<open>try\<close> block, and the method with its \<^verbatim>\<open>catch\<close>
  clause, which falls back to the \<^verbatim>\<open>reporterName\<close> signal. The method is asynchronous,
  so its result has the type of a promise's outcome; it never is a rejection.
\<close>

definition getReporter_try :: "env \<Rightarrow> client_state \<Rightarrow> exn + Reporter option" where
  "getReporter_try ev c =
     (case getMeta ev ''reporterName'' c of
        None \<Rightarrow> Inr None
      | Some n \<Rightarrow>
          if \<not> truthy (Some n) then Inr None
          else Inr (Some \<lparr>name = n,
                           user_id = (if truthy (getMeta ev ''reporterUserId'' c)
                                      then getMeta ev ''reporterUserId'' c else None)\<rparr>))"

definition getReporter :: "env \<Rightarrow> client_state \<Rightarrow> exn + Reporter option" where
  "getReporter ev c =
     (case getReporter_try ev c of
        Inr reporter \<Rightarrow> Inr reporter
      | Inl e \<Rightarrow>
          (case reporterName c of
             None \<Rightarrow> Inr None
           | Some signalName \<Rightarrow>
               if truthy (Some signalName) then Inr (Some \<lparr>name = signalName, user_id = None\<rparr>)
               else Inr None))"

text \<open>
  \<^verbatim>\<open>getLastUnresolvedFailedCheck\<close>:
  \<^verbatim>\<open>where('asset_id').equals(assetId).reverse().sortBy('completed_at')\<close> reads the rows
  backwards and sorts them, stably, by descending \<^verbatim>\<open>completed_at\<close>.
\<close>

definition getLastUnresolvedFailedCheck :: "string \<Rightarrow> client_state \<Rightarrow> client_event option" where
  "getLastUnresolvedFailedCheck assetId c =
     (let evs =
            sort_completed_at_desc
              (rev (filter (\<lambda>e. server_event.asset_id e = assetId) (map snd (events c))))
      in case evs of
           [] \<Rightarrow> None
         | lastEvent # _ \<Rightarrow> (if result lastEvent = PASS then None else Some lastEvent))"


section \<open>Client: the sync engine (\<^verbatim>\<open>SyncService\<close>)\<close>

text \<open>
  An asynchronous method returns the state it leaves together with the value its promise
  rejects with, if it rejects. \<^verbatim>\<open>now\<close> is the reading of the clock during the run.

  \<^verbatim>\<open>syncEvents\<close> and \<^verbatim>\<open>syncFaults\<close>: strip the client-only fields, call the batch
  endpoint, then mark the records; when the call rejects, mark all of them and rethrow.
\<close>

definition syncEvents ::
  "env \<Rightarrow> timestamp \<Rightarrow> client_event list \<Rightarrow> client_state \<Rightarrow> exn option \<times> client_state" where
  "syncEvents ev now evs c =
     (let serverEvents = map server_event.truncate evs
      in case api_batchUpsertEvents ev serverEvents of
           Inr res \<Rightarrow>
             (let successIds =
                    map event_id
                      (filter (\<lambda>e. find (\<lambda>err. fst err = event_id e) (errors res) = None) evs);
                  c1 = fold (\<lambda>eventId. updateEventSyncStatus now eventId SYNCED None) successIds c;
                  c2 = fold (\<lambda>err. updateEventSyncStatus now (fst err) ERROR (Some (snd err)))
                         (errors res) c1
              in (None, c2))
         | Inl e \<Rightarrow>
             (Some e,
              fold (\<lambda>event. updateEventSyncStatus now (event_id event) ERROR
                               (Some (message_or e ''Unknown error'')))
                evs c))"

definition syncFaults ::
  "env \<Rightarrow> timestamp \<Rightarrow> client_fault list \<Rightarrow> client_state \<Rightarrow> exn option \<times> client_state" where
  "syncFaults ev now fs c =
     (let serverFaults = map server_fault.truncate fs
      in case api_batchUpsertFaults ev serverFaults of
           Inr res \<Rightarrow>
             (let successIds =
                    map fault_id
                      (filter (\<lambda>f. find (\<lambda>err. fst err = fault_id f) (errors res) = None) fs);
                  c1 = fold (\<lambda>faultId. updateFaultSyncStatus now faultId SYNCED None) successIds c;
                  c2 = fold (\<lambda>err. updateFaultSyncStatus now (fst err) ERROR (Some (snd err)))
                         (errors res) c1
              in (None, c2))
         | Inl e \<Rightarrow>
             (Some e,
              fold (\<lambda>fault. updateFaultSyncStatus now (fault_id fault) ERROR
                               (Some (message_or e ''Unknown error'')))
                fs c))"

text \<open>Both refreshes catch and log their own failures.\<close>

definition refreshFaultsForAsset :: "env \<Rightarrow> string \<Rightarrow> client_state \<Rightarrow> client_state" where
  "refreshFaultsForAsset ev assetId c =
     (case api_getOpenFaultsByAsset ev assetId of
        Inr serverFaults \<Rightarrow> replaceSyncedFaultsForAsset assetId serverFaults c
      | Inl e \<Rightarrow> c)"

definition refreshLastFailedCheckForAsset :: "env \<Rightarrow> string \<Rightarrow> client_state \<Rightarrow> client_state" where
  "refreshLastFailedCheckForAsset ev assetId c =
     saveLastFailedCheck assetId (api_getLastFailedCheck ev assetId) c"

text \<open>
  \<^verbatim>\<open>syncQueue\<close>, in the pieces that its \<^verbatim>\<open>await\<close>s cut it into. The elements of a
  JavaScript \<^verbatim>\<open>Set\<close> are visited in the order of their first insertion.
\<close>

definition touchedAssetIds :: "client_event list \<Rightarrow> client_fault list \<Rightarrow> string list" where
  "touchedAssetIds pendingEvents pendingFaults =
     rev (remdups (rev (map server_event.asset_id pendingEvents
                        @ map server_fault.asset_id pendingFaults)))"

text \<open>The \<^verbatim>\<open>try\<close> block from step 2 on, given what \<^verbatim>\<open>syncEvents\<close> left.\<close>

definition syncQueue_after_events ::
  "env \<Rightarrow> timestamp \<Rightarrow> client_event list \<Rightarrow> exn option \<times> client_state
    \<Rightarrow> exn option \<times> client_state" where
  "syncQueue_after_events ev now pendingEvents r =
     (case r of
        (Some e, c1) \<Rightarrow> (Some e, c1)
      | (None, c1) \<Rightarrow>
          (let pendingFaults = getPendingFaults c1
           in case (if pendingFaults \<noteq> [] then syncFaults ev now pendingFaults c1 else (None, c1)) of
                (Some e, c2) \<Rightarrow> (Some e, c2)
              | (None, c2) \<Rightarrow>
                  (let c3 = fold (\<lambda>assetId s.
                                    refreshLastFailedCheckForAsset ev assetId
                                      (refreshFaultsForAsset ev assetId s))
                              (touchedAssetIds pendingEvents pendingFaults) c2;
                       c4 = setMeta ''lastSyncAt'' (Some (Time now)) c3
                   in (None, c4\<lparr>syncState := success, syncMessage := ''Sync completed''\<rparr>))))"

text \<open>The \<^verbatim>\<open>catch\<close> and \<^verbatim>\<open>finally\<close> clauses: the method itself resolves.\<close>

definition syncQueue_settle :: "exn option \<times> client_state \<Rightarrow> client_state" where
  "syncQueue_settle r =
     (case r of
        (None, c) \<Rightarrow> c\<lparr>syncInProgress := False\<rparr>
      | (Some e, c) \<Rightarrow>
          c\<lparr>syncState := error, syncMessage := message_or e ''Sync failed'',
            syncInProgress := False\<rparr>)"

definition syncQueue :: "env \<Rightarrow> timestamp \<Rightarrow> client_state \<Rightarrow> exn option \<times> client_state" where
  "syncQueue ev now c =
     (if syncInProgress c then (None, c)
      else if \<not> isOnline c then (None, c)
      else case getReporter ev c of
             Inl e \<Rightarrow> (Some e, c)
           | Inr None \<Rightarrow> (None, c\<lparr>syncMessage := ''Please set your name to enable sync''\<rparr>)
           | Inr (Some reporter) \<Rightarrow>
               (let c0 = c\<lparr>syncInProgress := True, syncState := syncing,
                            syncMessage := ''Uploading pending checks...''\<rparr>;
                    pendingEvents = getPendingEvents c0
                in (None,
                    syncQueue_settle
                      (syncQueue_after_events ev now pendingEvents
                         (if pendingEvents \<noteq> [] then syncEvents ev now pendingEvents c0
                          else (None, c0))))))"

text \<open>
  \<^verbatim>\<open>fetchLastFailedChecksForAllAssets\<close>: the batches of five run one after another; the
  saves of one batch write different keys unless two assets share an id, and are taken
  in the order of the list.
\<close>

definition fetchLastFailedChecksForAllAssets ::
  "env \<Rightarrow> Asset list \<Rightarrow> client_state \<Rightarrow> client_state" where
  "fetchLastFailedChecksForAllAssets ev as c =
     fold (\<lambda>asset. saveLastFailedCheck (Asset.asset_id asset)
                      (api_getLastFailedCheck ev (Asset.asset_id asset)))
       as (clearLastFailedChecksCache (c\<lparr>syncMessage := ''Fetching failure reports...''\<rparr>))"

text \<open>
  \<^verbatim>\<open>initialSync\<close>. \<^verbatim>\<open>Promise.all\<close> rejects with the rejection that comes first; when both
  calls reject the model takes that of \<^verbatim>\<open>getAssets\<close>.
\<close>

definition initialSync_try :: "env \<Rightarrow> timestamp \<Rightarrow> client_state \<Rightarrow> exn option \<times> client_state" where
  "initialSync_try ev now c =
     (case api_getAssets ev of
        Inl e \<Rightarrow> (Some e, c)
      | Inr as \<Rightarrow>
          (case api_getAllChecklists ev of
             Inl e \<Rightarrow> (Some e, c)
           | Inr checklists \<Rightarrow>
               (case syncQueue ev now (saveChecklists checklists (saveAssets as c)) of
                  (Some e, c3) \<Rightarrow> (Some e, c3)
                | (None, c3) \<Rightarrow>
                    (let c4 = fetchLastFailedChecksForAllAssets ev as c3;
                         c5 = setMeta ''lastSyncAt'' (Some (Time now)) c4
                     in (None, c5\<lparr>syncState := success, syncMessage := ''Sync completed''\<rparr>)))))"

definition initialSync :: "env \<Rightarrow> timestamp \<Rightarrow> client_state \<Rightarrow> exn option \<times> client_state" where
  "initialSync ev now c =
     (if \<not> isOnline c then (None, c)
      else case initialSync_try ev now
                  (c\<lparr>syncState := syncing, syncMessage := ''Syncing data...''\<rparr>) of
             (None, c') \<Rightarrow> (None, c')
           | (Some e, c') \<Rightarrow>
               (None, c'\<lparr>syncState := error, syncMessage := message_or e ''Sync failed''\<rparr>))"




section \<open>Overlapping invocations of \<^verbatim>\<open>syncQueue\<close>\<close>

text \<open>
  JavaScript runs an asynchronous method without interruption up to its next \<^verbatim>\<open>await\<close>,
  where it is suspended until the awaited promise settles; other invocations run in
  between. An invocation of \<^verbatim>\<open>syncQueue\<close> is therefore in one of these places: just
  called; suspended at \<^verbatim>\<open>await this.db.getReporter()\<close>; suspended at
  \<^verbatim>\<open>await this.db.getPendingEvents()\<close>; suspended inside \<^verbatim>\<open>syncEvents\<close> at
  \<^verbatim>\<open>await this.api.batchUpsertEvents(serverEvents)\<close>, holding its \<^verbatim>\<open>pendingEvents\<close>;
  or settled.
\<close>

datatype invocation =
    Called
  | AwaitReporter
  | AwaitPendingEvents
  | AwaitEventsUpload "client_event list"
  | Settled "exn option"

text \<open>
  One resumption of an invocation, over the client state and the bodies of the
  \<^verbatim>\<open>POST /events/batch\<close> requests sent so far. Each case is the code between two of the
  \<^verbatim>\<open>await\<close>s above; the last one runs the rest of the method without another invocation
  in between.
\<close>

fun resume ::
  "env \<Rightarrow> timestamp \<Rightarrow> invocation \<Rightarrow> client_state \<times> server_event list list
    \<Rightarrow> invocation \<times> client_state \<times> server_event list list" where
  "resume ev now Called (c, sent) =
     (if syncInProgress c then (Settled None, c, sent)
      else if \<not> isOnline c then (Settled None, c, sent)
      else (AwaitReporter, c, sent))"
| "resume ev now AwaitReporter (c, sent) =
     (case getReporter ev c of
        Inl e \<Rightarrow> (Settled (Some e), c, sent)
      | Inr None \<Rightarrow>
          (Settled None, c\<lparr>syncMessage := ''Please set your name to enable sync''\<rparr>, sent)
      | Inr (Some reporter) \<Rightarrow>
          (AwaitPendingEvents,
           c\<lparr>syncInProgress := True, syncState := syncing,
             syncMessage := ''Uploading pending checks...''\<rparr>, sent))"
| "resume ev now AwaitPendingEvents (c, sent) =
     (let pendingEvents = getPendingEvents c
      in if pendingEvents \<noteq> [] then
           (AwaitEventsUpload pendingEvents, c, sent @ [map server_event.truncate pendingEvents])
         else
           (Settled None,
            syncQueue_settle (syncQueue_after_events ev now pendingEvents (None, c)), sent))"
| "resume ev now (AwaitEventsUpload pendingEvents) (c, sent) =
     (Settled None,
      syncQueue_settle
        (syncQueue_after_events ev now pendingEvents (syncEvents ev now pendingEvents c)),
      sent)"
| "resume ev now (Settled r) (c, sent) = (Settled r, c, sent)"

text \<open>
  Two invocations under a schedule: each entry names the invocation that is resumed
  next (\<^const>\<open>True\<close> the first, \<^const>\<open>False\<close> the second).
\<close>

fun run ::
  "env \<Rightarrow> timestamp \<Rightarrow> bool list
    \<Rightarrow> (invocation \<times> invocation) \<times> client_state \<times> server_event list list
    \<Rightarrow> (invocation \<times> invocation) \<times> client_state \<times> server_event list list" where
  "run ev now [] s = s"
| "run ev now (pick # schedule) ((a, b), w) =
     (if pick then (case resume ev now a w of (a', w') \<Rightarrow> run ev now schedule ((a', b), w'))
      else (case resume ev now b w of (b', w') \<Rightarrow> run ev now schedule ((a, b'), w')))"


section \<open>Sample data\<close>

text \<open>A check event and an asset with the given key fields, for the concrete runs below.\<close>

definition sample_event :: "string \<Rightarrow> string \<Rightarrow> timestamp \<Rightarrow> CheckResult \<Rightarrow> server_event" where
  "sample_event eid aid t res =
     \<lparr>event_id = eid, server_event.asset_id = aid, server_event.machine_class = ''Tractor'',
      started_at = t, completed_at = t, server_event.created_at = t,
      server_event.updated_at = t, result = res\<rparr>"

definition sample_fault :: "string \<Rightarrow> string \<Rightarrow> timestamp \<Rightarrow> server_fault" where
  "sample_fault fid aid t =
     \<lparr>fault_id = fid, server_fault.asset_id = aid, server_fault.status = OPEN,
      description = ''Coolant level is adequate - Coolant is low'', source_event_id = None,
      server_fault.created_at = t, server_fault.updated_at = t\<rparr>"

definition sample_asset :: "string \<Rightarrow> string \<Rightarrow> Asset" where
  "sample_asset aid nm =
     \<lparr>Asset.asset_id = aid, Asset.name = nm, Asset.machine_class = ''Tractor'',
      qr_code_value = aid\<rparr>"

definition sample_client_event ::
  "string \<Rightarrow> string \<Rightarrow> timestamp \<Rightarrow> CheckResult \<Rightarrow> SyncStatus \<Rightarrow> client_event" where
  "sample_client_event eid aid t res st =
     server_event.extend (sample_event eid aid t res)
       \<lparr>client_event.sync_status = st, client_event.last_error = None\<rparr>"

definition sample_client_fault :: "string \<Rightarrow> string \<Rightarrow> timestamp \<Rightarrow> SyncStatus \<Rightarrow> client_fault" where
  "sample_client_fault fid aid t st =
     server_fault.extend (sample_fault fid aid t)
       \<lparr>client_fault.sync_status = st, client_fault.last_error = None\<rparr>"

text \<open>
  A client with the given assets, events and faults, a reporter set, and the flags
  \<^verbatim>\<open>isOnline\<close> and \<^verbatim>\<open>syncInProgress\<close> as given.
\<close>

definition sample_client ::
  "Asset js_map \<Rightarrow> client_event js_map \<Rightarrow> client_fault js_map \<Rightarrow> bool \<Rightarrow> bool \<Rightarrow> client_state" where
  "sample_client as evs fs online busy =
     \<lparr>assets = as, activeChecklists = [], events = evs, faults = fs,
      appMeta = [(''reporterName'', Some (Str ''Dana''))], lastFailedChecks = [],
      pendingEventsCount = 0, pendingFaultsCount = 0, lastSyncAt = None,
      reporterName = Some (Str ''Dana''), syncState = idle, syncMessage = [],
      isOnline = online, syncInProgress = busy\<rparr>"

text \<open>
  A server that accepts every record and has no assets, checklists or faults of its own,
  over a store that works; and the same with the given outcome of the two batch calls, or
  with a failing read of the \<^verbatim>\<open>appMeta\<close> table.
\<close>

definition sample_env :: env where
  "sample_env =
     \<lparr>meta_read_error = (\<lambda>key. None),
      api_getAssets = Inr [],
      api_getAllChecklists = Inr [],
      api_batchUpsertEvents =
        (\<lambda>evs. Inr \<lparr>processed = length evs, created = length evs, updated = 0, errors = []\<rparr>),
      api_batchUpsertFaults =
        (\<lambda>fs. Inr \<lparr>processed = length fs, created = length fs, updated = 0, errors = []\<rparr>),
      api_getOpenFaultsByAsset = (\<lambda>assetId. Inr []),
      api_getLastFailedCheck = (\<lambda>assetId. None)\<rparr>"

definition sample_env_batch :: "exn + BatchResponse \<Rightarrow> env" where
  "sample_env_batch outcome =
     sample_env\<lparr>api_batchUpsertEvents := (\<lambda>evs. outcome),
                api_batchUpsertFaults := (\<lambda>fs. outcome)\<rparr>"


definition sample_env_assets :: "Asset list \<Rightarrow> env" where
  "sample_env_assets as = sample_env\<lparr>api_getAssets := Inr as\<rparr>"


section \<open>The result of a check\<close>

text \<open>
  Claim C8. For every list of responses the computed result is PASS exactly when every
  response has the answer YES, and FAIL otherwise; in particular the empty list gives
  PASS. This holds for \<^verbatim>\<open>calculateCheckResult\<close> and for the result that \<^verbatim>\<open>createEvent\<close>
  takes from \<^verbatim>\<open>willPass\<close>.
\<close>

theorem check_result_pass_iff_all_yes:
  "(calculateCheckResult responses = PASS \<longleftrightarrow> (\<forall>r \<in> set responses. answer r = Some YES))
   \<and> (calculateCheckResult responses = FAIL \<longleftrightarrow> \<not> (\<forall>r \<in> set responses. answer r = Some YES))
   \<and> calculateCheckResult ([] :: 'a answered_scheme list) = PASS
   \<and> (createEvent_result formItems = PASS \<longleftrightarrow> (\<forall>item \<in> set formItems. answer item = Some YES))
   \<and> (createEvent_result formItems = FAIL \<longleftrightarrow> \<not> (\<forall>item \<in> set formItems. answer item = Some YES))
   \<and> createEvent_result [] = PASS"
  by (simp add: calculateCheckResult_def createEvent_result_def willPass_def list_all_iff)

theorem check_result_pass_iff_all_yes_witness:
  "list_all (\<lambda>r. answer r = Some YES) [\<lparr>answer = Some YES\<rparr>, \<lparr>answer = Some YES\<rparr>]
   \<and> calculateCheckResult [\<lparr>answer = Some YES\<rparr>, \<lparr>answer = Some YES\<rparr>] = PASS
   \<and> \<not> list_all (\<lambda>r. answer r = Some YES) [\<lparr>answer = Some YES\<rparr>, \<lparr>answer = Some NO\<rparr>]
   \<and> calculateCheckResult [\<lparr>answer = Some YES\<rparr>, \<lparr>answer = Some NO\<rparr>] = FAIL
   \<and> calculateCheckResult [\<lparr>answer = Some YES\<rparr>, \<lparr>answer = None\<rparr>] = FAIL"
proof -
  have yes: "\<forall>r \<in> set [\<lparr>answer = Some YES\<rparr>, \<lparr>answer = Some YES\<rparr>]. answer r = Some YES"
    by simp
  have no: "\<not> (\<forall>r \<in> set [\<lparr>answer = Some YES\<rparr>, \<lparr>answer = Some NO\<rparr>]. answer r = Some YES)"
    by simp
  have null: "\<not> (\<forall>r \<in> set [\<lparr>answer = Some YES\<rparr>, \<lparr>answer = None\<rparr>]. answer r = Some YES)"
    by simp
  from yes no null
    check_result_pass_iff_all_yes [of "[\<lparr>answer = Some YES\<rparr>, \<lparr>answer = Some YES\<rparr>]" "[]"]
    check_result_pass_iff_all_yes [of "[\<lparr>answer = Some YES\<rparr>, \<lparr>answer = Some NO\<rparr>]" "[]"]
    check_result_pass_iff_all_yes [of "[\<lparr>answer = Some YES\<rparr>, \<lparr>answer = None\<rparr>]" "[]"]
  show ?thesis unfolding list_all_iff by blast
qed


section \<open>The tallies of a batch upsert\<close>

lemma events_batch_loop_tally:
  "events_batch_loop now evs (r, m) = (None, r', m') \<Longrightarrow>
   processed r' = processed r \<and>
   created r' + updated r' + length (errors r')
     = created r + updated r + length (errors r) + length evs"
proof (induction evs arbitrary: r m)
  case Nil
  then show ?case by simp
next
  case (Cons a evs)
  show ?case
  proof (cases a)
    case None
    with Cons.prems show ?thesis by simp
  next
    case (Some e)
    show ?thesis
    proof (cases "event_id e = []")
      case True
      with Some Cons.prems
        Cons.IH [of "r\<lparr>errors := errors r @ [(''unknown'', ''event_id is required'')]\<rparr>" m]
      show ?thesis by simp
    next
      case False
      show ?thesis
      proof (cases "map_of m (event_id e)")
        case None
        with Some False Cons.prems
          Cons.IH [of "r\<lparr>created := created r + 1\<rparr>"
            "AList.update (event_id e)
               (e\<lparr>server_event.created_at := now, server_event.updated_at := now\<rparr>) m"]
        show ?thesis by simp
      next
        case (Some x)
        with \<open>a = Some e\<close> False Cons.prems
          Cons.IH [of "r\<lparr>updated := updated r + 1\<rparr>"
            "AList.update (event_id e) (e\<lparr>server_event.updated_at := now\<rparr>) m"]
        show ?thesis by simp
      qed
    qed
  qed
qed

lemma faults_batch_loop_tally:
  "faults_batch_loop now fs (r, m) = (None, r', m') \<Longrightarrow>
   processed r' = processed r \<and>
   created r' + updated r' + length (errors r')
     = created r + updated r + length (errors r) + length fs"
proof (induction fs arbitrary: r m)
  case Nil
  then show ?case by simp
next
  case (Cons a fs)
  show ?case
  proof (cases a)
    case None
    with Cons.prems show ?thesis by simp
  next
    case (Some f)
    show ?thesis
    proof (cases "fault_id f = []")
      case True
      with Some Cons.prems
        Cons.IH [of "r\<lparr>errors := errors r @ [(''unknown'', ''fault_id is required'')]\<rparr>" m]
      show ?thesis by simp
    next
      case False
      show ?thesis
      proof (cases "map_of m (fault_id f)")
        case None
        with Some False Cons.prems
          Cons.IH [of "r\<lparr>created := created r + 1\<rparr>"
            "AList.update (fault_id f)
               (f\<lparr>server_fault.created_at := now, server_fault.updated_at := now\<rparr>) m"]
        show ?thesis by simp
      next
        case (Some x)
        with \<open>a = Some f\<close> False Cons.prems
          Cons.IH [of "r\<lparr>updated := updated r + 1\<rparr>"
            "AList.update (fault_id f) (f\<lparr>server_fault.updated_at := now\<rparr>) m"]
        show ?thesis by simp
      qed
    qed
  qed
qed

text \<open>
  Claim C10. Every batch upsert of events or of faults that answers with a
  \<^verbatim>\<open>BatchResponse\<close> has \<^verbatim>\<open>processed\<close> equal to the length of the request array and to
  \<^verbatim>\<open>created + updated + errors.length\<close>.
\<close>

theorem batch_response_tally:
  "(fst (post_events_batch now (Some evs) m) = Inr r \<longrightarrow>
      processed r = length evs \<and> processed r = created r + updated r + length (errors r))
   \<and> (fst (post_faults_batch now (Some fs) fm) = Inr r2 \<longrightarrow>
      processed r2 = length fs \<and> processed r2 = created r2 + updated r2 + length (errors r2))"
proof (intro conjI impI)
  assume "fst (post_events_batch now (Some evs) m) = Inr r"
  then obtain m' where "events_batch_loop now evs
      (\<lparr>processed = length evs, created = 0, updated = 0, errors = []\<rparr>, m) = (None, r, m')"
    by (auto simp: post_events_batch_def split: prod.splits option.splits)
  from events_batch_loop_tally [OF this]
  show "processed r = length evs" "processed r = created r + updated r + length (errors r)"
    by simp_all
next
  assume "fst (post_faults_batch now (Some fs) fm) = Inr r2"
  then obtain fm' where "faults_batch_loop now fs
      (\<lparr>processed = length fs, created = 0, updated = 0, errors = []\<rparr>, fm) = (None, r2, fm')"
    by (auto simp: post_faults_batch_def split: prod.splits option.splits)
  from faults_batch_loop_tally [OF this]
  show "processed r2 = length fs" "processed r2 = created r2 + updated r2 + length (errors r2)"
    by simp_all
qed

theorem batch_response_tally_witness:
  "fst (post_events_batch 500
          (Some [Some (sample_event ''EVT-001'' ''TRAC001'' 100 PASS),
                 Some (sample_event [] ''TRAC002'' 110 PASS),
                 Some (sample_event ''EVT-001'' ''TRAC001'' 120 FAIL)]) [])
     = Inr \<lparr>processed = 3, created = 1, updated = 1,
             errors = [(''unknown'', ''event_id is required'')]\<rparr>
   \<and> fst (post_faults_batch 500
            (Some [Some (sample_fault ''FLT-001'' ''TRAC001'' 100),
                   Some (sample_fault [] ''TRAC001'' 100)])
            [(''FLT-001'', sample_fault ''FLT-001'' ''TRAC001'' 90)])
     = Inr \<lparr>processed = 2, created = 0, updated = 1,
             errors = [(''unknown'', ''fault_id is required'')]\<rparr>
   \<and> (3::nat) = 1 + 1 + length [(''unknown'', ''event_id is required'')]
   \<and> (2::nat) = 0 + 1 + length [(''unknown'', ''fault_id is required'')]"
proof -
  have e: "fst (post_events_batch 500
          (Some [Some (sample_event ''EVT-001'' ''TRAC001'' 100 PASS),
                 Some (sample_event [] ''TRAC002'' 110 PASS),
                 Some (sample_event ''EVT-001'' ''TRAC001'' 120 FAIL)]) [])
     = Inr \<lparr>processed = 3, created = 1, updated = 1,
             errors = [(''unknown'', ''event_id is required'')]\<rparr>"
    by (simp add: post_events_batch_def sample_event_def)
  have f: "fst (post_faults_batch 500
            (Some [Some (sample_fault ''FLT-001'' ''TRAC001'' 100),
                   Some (sample_fault [] ''TRAC001'' 100)])
            [(''FLT-001'', sample_fault ''FLT-001'' ''TRAC001'' 90)])
     = Inr \<lparr>processed = 2, created = 0, updated = 1,
             errors = [(''unknown'', ''fault_id is required'')]\<rparr>"
    by (simp add: post_faults_batch_def sample_fault_def)
  from e f
    batch_response_tally [of 500 "[Some (sample_event ''EVT-001'' ''TRAC001'' 100 PASS),
                 Some (sample_event [] ''TRAC002'' 110 PASS),
                 Some (sample_event ''EVT-001'' ''TRAC001'' 120 FAIL)]" "[]"
      "\<lparr>processed = 3, created = 1, updated = 1,
             errors = [(''unknown'', ''event_id is required'')]\<rparr>"
      "[Some (sample_fault ''FLT-001'' ''TRAC001'' 100), Some (sample_fault [] ''TRAC001'' 100)]"
      "[(''FLT-001'', sample_fault ''FLT-001'' ''TRAC001'' 90)]"
      "\<lparr>processed = 2, created = 0, updated = 1,
             errors = [(''unknown'', ''fault_id is required'')]\<rparr>"]
  show ?thesis by simp
qed


section \<open>The last failed check of an asset\<close>

lemma sort_completed_at_desc_Nil: "sort_completed_at_desc xs = [] \<longleftrightarrow> xs = []"
proof -
  have "length (sort_completed_at_desc xs) = length xs"
    by (simp add: sort_completed_at_desc_def)
  then show ?thesis by (metis length_0_conv)
qed

lemma sort_completed_at_desc_hd:
  assumes "sort_completed_at_desc xs = e # rest"
  shows "e \<in> set xs \<and> (\<forall>e' \<in> set xs. completed_at e' \<le> completed_at e)"
proof -
  have s: "set (e # rest) = set xs"
    using assms by (metis sort_completed_at_desc_def set_sort)
  have "sorted (map (\<lambda>e. - completed_at e) (e # rest))"
    using assms by (metis sort_completed_at_desc_def sorted_sort_key)
  then have "\<forall>y \<in> set rest. - completed_at e \<le> - completed_at y" by simp
  then have "\<forall>y \<in> set (e # rest). completed_at y \<le> completed_at e" by simp
  with s show ?thesis by auto
qed

text \<open>What both queries do with the events of the asset, in whatever order they come.\<close>

lemma latest_of_sorted:
  "(case (case sort_completed_at_desc xs of
            [] \<Rightarrow> None
          | lastEvent # _ \<Rightarrow> (if result lastEvent = PASS then None else Some lastEvent)) of
      Some e \<Rightarrow>
        e \<in> set xs \<and> result e = FAIL \<and> (\<forall>e' \<in> set xs. completed_at e' \<le> completed_at e)
    | None \<Rightarrow>
        xs = [] \<or>
        (\<exists>e \<in> set xs. result e = PASS \<and> (\<forall>e' \<in> set xs. completed_at e' \<le> completed_at e)))"
proof (cases "sort_completed_at_desc xs")
  case Nil
  moreover from Nil have "xs = []" by (simp only: sort_completed_at_desc_Nil)
  ultimately show ?thesis by simp
next
  case (Cons e rest)
  from sort_completed_at_desc_hd [OF Cons]
  have h: "e \<in> set xs" "\<forall>e' \<in> set xs. completed_at e' \<le> completed_at e"
    by blast+
  show ?thesis
  proof (cases "result e")
    case PASS
    with h Cons show ?thesis by auto
  next
    case FAIL
    with h Cons show ?thesis by simp
  qed
qed

text \<open>
  Claim C6. The last-failed-check query, on the server and on the client's own events,
  looks at the asset's events only. When it returns an event, that event is one of them,
  has result FAIL and no event of the asset has a later \<^verbatim>\<open>completed_at\<close>. When it
  returns null, the asset has no events or one of its events with the latest
  \<^verbatim>\<open>completed_at\<close> has result PASS. So the history FAIL at \<open>t1\<close>, PASS at \<open>t2 > t1\<close>
  gives null, and FAIL at \<open>t1\<close>, FAIL at \<open>t2 > t1\<close> gives the FAIL at \<open>t2\<close>.
\<close>

theorem last_failed_check_is_latest_fail:
  "(case get_last_failed a m of
      Some e \<Rightarrow>
        e \<in> set (filter (\<lambda>x. server_event.asset_id x = a) (map snd m)) \<and> result e = FAIL \<and>
        (\<forall>e' \<in> set (filter (\<lambda>x. server_event.asset_id x = a) (map snd m)).
           completed_at e' \<le> completed_at e)
    | None \<Rightarrow>
        filter (\<lambda>x. server_event.asset_id x = a) (map snd m) = [] \<or>
        (\<exists>e \<in> set (filter (\<lambda>x. server_event.asset_id x = a) (map snd m)).
           result e = PASS \<and>
           (\<forall>e' \<in> set (filter (\<lambda>x. server_event.asset_id x = a) (map snd m)).
              completed_at e' \<le> completed_at e)))
   \<and> (case getLastUnresolvedFailedCheck a c of
      Some e \<Rightarrow>
        e \<in> set (filter (\<lambda>x. server_event.asset_id x = a) (map snd (events c))) \<and> result e = FAIL \<and>
        (\<forall>e' \<in> set (filter (\<lambda>x. server_event.asset_id x = a) (map snd (events c))).
           completed_at e' \<le> completed_at e)
    | None \<Rightarrow>
        filter (\<lambda>x. server_event.asset_id x = a) (map snd (events c)) = [] \<or>
        (\<exists>e \<in> set (filter (\<lambda>x. server_event.asset_id x = a) (map snd (events c))).
           result e = PASS \<and>
           (\<forall>e' \<in> set (filter (\<lambda>x. server_event.asset_id x = a) (map snd (events c))).
              completed_at e' \<le> completed_at e)))
   \<and> get_last_failed a [] = None
   \<and> (t1 < t2 \<longrightarrow>
        get_last_failed a [(k1, sample_event k1 a t1 FAIL), (k2, sample_event k2 a t2 PASS)] = None
      \<and> get_last_failed a [(k1, sample_event k1 a t1 FAIL), (k2, sample_event k2 a t2 FAIL)]
          = Some (sample_event k2 a t2 FAIL))"
proof (intro conjI impI)
  show "case get_last_failed a m of
      Some e \<Rightarrow>
        e \<in> set (filter (\<lambda>x. server_event.asset_id x = a) (map snd m)) \<and> result e = FAIL \<and>
        (\<forall>e' \<in> set (filter (\<lambda>x. server_event.asset_id x = a) (map snd m)).
           completed_at e' \<le> completed_at e)
    | None \<Rightarrow>
        filter (\<lambda>x. server_event.asset_id x = a) (map snd m) = [] \<or>
        (\<exists>e \<in> set (filter (\<lambda>x. server_event.asset_id x = a) (map snd m)).
           result e = PASS \<and>
           (\<forall>e' \<in> set (filter (\<lambda>x. server_event.asset_id x = a) (map snd m)).
              completed_at e' \<le> completed_at e))"
    unfolding get_last_failed_def Let_def
    by (rule latest_of_sorted)
next
  have "case getLastUnresolvedFailedCheck a c of
      Some e \<Rightarrow>
        e \<in> set (rev (filter (\<lambda>x. server_event.asset_id x = a) (map snd (events c)))) \<and> result e = FAIL \<and>
        (\<forall>e' \<in> set (rev (filter (\<lambda>x. server_event.asset_id x = a) (map snd (events c)))).
           completed_at e' \<le> completed_at e)
    | None \<Rightarrow>
        rev (filter (\<lambda>x. server_event.asset_id x = a) (map snd (events c))) = [] \<or>
        (\<exists>e \<in> set (rev (filter (\<lambda>x. server_event.asset_id x = a) (map snd (events c)))).
           result e = PASS \<and>
           (\<forall>e' \<in> set (rev (filter (\<lambda>x. server_event.asset_id x = a) (map snd (events c)))).
              completed_at e' \<le> completed_at e))"
    unfolding getLastUnresolvedFailedCheck_def Let_def
    by (rule latest_of_sorted)
  then show "case getLastUnresolvedFailedCheck a c of
      Some e \<Rightarrow>
        e \<in> set (filter (\<lambda>x. server_event.asset_id x = a) (map snd (events c))) \<and> result e = FAIL \<and>
        (\<forall>e' \<in> set (filter (\<lambda>x. server_event.asset_id x = a) (map snd (events c))).
           completed_at e' \<le> completed_at e)
    | None \<Rightarrow>
        filter (\<lambda>x. server_event.asset_id x = a) (map snd (events c)) = [] \<or>
        (\<exists>e \<in> set (filter (\<lambda>x. server_event.asset_id x = a) (map snd (events c))).
           result e = PASS \<and>
           (\<forall>e' \<in> set (filter (\<lambda>x. server_event.asset_id x = a) (map snd (events c))).
              completed_at e' \<le> completed_at e))"
    by (simp only: set_rev rev_is_Nil_conv)
next
  show "get_last_failed a [] = None"
    by (simp add: get_last_failed_def sort_completed_at_desc_def)
next
  assume "t1 < t2"
  then show "get_last_failed a [(k1, sample_event k1 a t1 FAIL), (k2, sample_event k2 a t2 PASS)] = None"
    by (simp add: get_last_failed_def sort_completed_at_desc_def sample_event_def)
next
  assume "t1 < t2"
  then show "get_last_failed a [(k1, sample_event k1 a t1 FAIL), (k2, sample_event k2 a t2 FAIL)]
          = Some (sample_event k2 a t2 FAIL)"
    by (simp add: get_last_failed_def sort_completed_at_desc_def sample_event_def)
qed

theorem last_failed_check_is_latest_fail_witness:
  "(100::int) < 200
   \<and> get_last_failed ''TRAC001''
        [(''EVT-001'', sample_event ''EVT-001'' ''TRAC001'' 100 FAIL),
         (''EVT-002'', sample_event ''EVT-002'' ''TRAC001'' 200 PASS)] = None
   \<and> get_last_failed ''TRAC001''
        [(''EVT-001'', sample_event ''EVT-001'' ''TRAC001'' 100 FAIL),
         (''EVT-002'', sample_event ''EVT-002'' ''TRAC001'' 200 FAIL)]
       = Some (sample_event ''EVT-002'' ''TRAC001'' 200 FAIL)
   \<and> sample_event ''EVT-002'' ''TRAC001'' 200 FAIL
       \<in> set (filter (\<lambda>x. server_event.asset_id x = ''TRAC001'')
                (map snd [(''EVT-001'', sample_event ''EVT-001'' ''TRAC001'' 100 FAIL),
                          (''EVT-002'', sample_event ''EVT-002'' ''TRAC001'' 200 FAIL)]))
   \<and> list_all (\<lambda>e'. completed_at e' \<le> completed_at (sample_event ''EVT-002'' ''TRAC001'' 200 FAIL))
         (filter (\<lambda>x. server_event.asset_id x = ''TRAC001'')
                (map snd [(''EVT-001'', sample_event ''EVT-001'' ''TRAC001'' 100 FAIL),
                          (''EVT-002'', sample_event ''EVT-002'' ''TRAC001'' 200 FAIL)]))"
proof -
  have lt: "(100::int) < 200" by simp
  note spec =
    last_failed_check_is_latest_fail
      [of "''TRAC001''"
          "[(''EVT-001'', sample_event ''EVT-001'' ''TRAC001'' 100 FAIL),
            (''EVT-002'', sample_event ''EVT-002'' ''TRAC001'' 200 FAIL)]"
          "sample_client [] [] [] True False" 100 200 "''EVT-001''" "''EVT-002''"]
  from spec lt have runs:
    "get_last_failed ''TRAC001''
        [(''EVT-001'', sample_event ''EVT-001'' ''TRAC001'' 100 FAIL),
         (''EVT-002'', sample_event ''EVT-002'' ''TRAC001'' 200 PASS)] = None"
    "get_last_failed ''TRAC001''
        [(''EVT-001'', sample_event ''EVT-001'' ''TRAC001'' 100 FAIL),
         (''EVT-002'', sample_event ''EVT-002'' ''TRAC001'' 200 FAIL)]
       = Some (sample_event ''EVT-002'' ''TRAC001'' 200 FAIL)"
    by blast+
  note gen = spec [THEN conjunct1, unfolded runs(2) option.case]
  from lt runs gen show ?thesis unfolding list_all_iff by blast
qed


section \<open>The batch upsert, record by record\<close>

lemma update_absent_appends: "map_of m k = None \<Longrightarrow> AList.update k v m = m @ [(k, v)]"
  by (induction m) (auto split: if_splits)

lemma update_past_prefix:
  "map_of m k = None \<Longrightarrow> AList.update k v (m @ xs) = m @ AList.update k v xs"
  by (induction m) (auto split: if_splits)

text \<open>On an array of objects the loop runs to its end.\<close>

lemma events_batch_loop_objects_finish:
  "fst (events_batch_loop now (map Some evs) st) = None"
proof (induction evs arbitrary: st)
  case Nil
  then show ?case by simp
next
  case (Cons e evs)
  obtain r m where st: "st = (r, m)" by (cases st)
  show ?case unfolding st by (simp add: Cons.IH)
qed

lemma events_batch_loop_objects_store_any_response:
  "snd (snd (events_batch_loop now (map Some evs) (r, m)))
     = snd (snd (events_batch_loop now (map Some evs) (r2, m)))"
proof (induction evs arbitrary: r r2 m)
  case Nil
  then show ?case by simp
next
  case (Cons e evs)
  show ?case
  proof (cases "event_id e = []")
    case True
    then show ?thesis
      using Cons.IH [of "r\<lparr>errors := errors r @ [(''unknown'', ''event_id is required'')]\<rparr>" m
          "r2\<lparr>errors := errors r2 @ [(''unknown'', ''event_id is required'')]\<rparr>"]
      by simp
  next
    case False
    show ?thesis
    proof (cases "map_of m (event_id e)")
      case None
      with False show ?thesis
        using Cons.IH [of "r\<lparr>created := created r + 1\<rparr>" _ "r2\<lparr>created := created r2 + 1\<rparr>"]
        by simp
    next
      case (Some x)
      with False show ?thesis
        using Cons.IH [of "r\<lparr>updated := updated r + 1\<rparr>" _ "r2\<lparr>updated := updated r2 + 1\<rparr>"]
        by simp
    qed
  qed
qed

lemma events_batch_loop_objects_store_skips:
  "snd (snd (events_batch_loop now (map Some evs) (r, m)))
     = snd (snd (events_batch_loop now (map Some (filter (\<lambda>e. event_id e \<noteq> []) evs)) (r, m)))"
proof (induction evs arbitrary: r m)
  case Nil
  then show ?case by simp
next
  case (Cons e evs)
  show ?case
  proof (cases "event_id e = []")
    case True
    then show ?thesis
      using Cons.IH [of "r\<lparr>errors := errors r @ [(''unknown'', ''event_id is required'')]\<rparr>" m]
        events_batch_loop_objects_store_any_response
          [of now "filter (\<lambda>e. event_id e \<noteq> []) evs"
            "r\<lparr>errors := errors r @ [(''unknown'', ''event_id is required'')]\<rparr>" m r]
      by simp
  next
    case False
    then show ?thesis
      by (cases "map_of m (event_id e)") (simp_all add: Cons.IH)
  qed
qed

lemma events_batch_loop_objects_errors:
  "errors (fst (snd (events_batch_loop now (map Some evs) (r, m))))
     = errors r @ replicate (length (filter (\<lambda>e. event_id e = []) evs))
                    (''unknown'', ''event_id is required'')"
proof (induction evs arbitrary: r m)
  case Nil
  then show ?case by simp
next
  case (Cons e evs)
  show ?case
  proof (cases "event_id e = []")
    case True
    then show ?thesis by (simp add: Cons.IH replicate_app_Cons_same)
  next
    case False
    then show ?thesis
      by (cases "map_of m (event_id e)") (simp_all add: Cons.IH)
  qed
qed

text \<open>
  On an array of objects the batch upsert handles the records one by one. A record
  without an id adds the entry \<^verbatim>\<open>{id: 'unknown', error: 'event_id is required'}\<close> and is
  skipped: the store ends as if the record had not been in the request. For the batch
  \<open>[A, B, A']\<close>, with \<open>A'\<close> a second version of \<open>A\<close> and neither \<open>A\<close> nor \<open>B\<close> stored
  before, the store gains exactly two records, under \<open>A\<close>'s id it holds \<open>A'\<close>, and the
  tallies are 2 created and 1 updated.
\<close>

lemma batch_upsert_of_objects:
  "(fst (post_events_batch now (Some (map Some evs)) m) = Inr r \<longrightarrow>
      errors r = replicate (length (filter (\<lambda>e. event_id e = []) evs))
                   (''unknown'', ''event_id is required''))
   \<and> (\<exists>r. fst (post_events_batch now (Some (map Some evs)) m) = Inr r)
   \<and> snd (post_events_batch now (Some (map Some evs)) m)
       = snd (post_events_batch now (Some (map Some (filter (\<lambda>e. event_id e \<noteq> []) evs))) m)
   \<and> (event_id A \<noteq> [] \<and> event_id B \<noteq> [] \<and> event_id A \<noteq> event_id B \<and> event_id A' = event_id A
        \<and> map_of m (event_id A) = None \<and> map_of m (event_id B) = None \<longrightarrow>
      post_events_batch now (Some [Some A, Some B, Some A']) m
        = (Inr \<lparr>processed = 3, created = 2, updated = 1, errors = []\<rparr>,
           m @ [(event_id A, A'\<lparr>server_event.updated_at := now\<rparr>),
                (event_id B, B\<lparr>server_event.created_at := now, server_event.updated_at := now\<rparr>)])
      \<and> length (snd (post_events_batch now (Some [Some A, Some B, Some A']) m)) = length m + 2
      \<and> map_of (snd (post_events_batch now (Some [Some A, Some B, Some A']) m)) (event_id A)
          = Some (A'\<lparr>server_event.updated_at := now\<rparr>))"
proof (intro conjI impI)
  let ?r0 = "\<lparr>processed = length (map Some evs), created = 0, updated = 0, errors = []\<rparr>"
  obtain t r' m' where run: "events_batch_loop now (map Some evs) (?r0, m) = (t, r', m')"
    by (cases "events_batch_loop now (map Some evs) (?r0, m)")
  from events_batch_loop_objects_finish [of now evs "(?r0, m)"] run have t: "t = None" by simp
  from events_batch_loop_objects_errors [of now evs ?r0 m] run
  have er: "errors r' = replicate (length (filter (\<lambda>e. event_id e = []) evs))
                   (''unknown'', ''event_id is required'')"
    by simp
  have post: "post_events_batch now (Some (map Some evs)) m = (Inr r', m')"
    using run t by (simp add: post_events_batch_def)
  show "\<exists>r. fst (post_events_batch now (Some (map Some evs)) m) = Inr r"
    by (simp add: post)
  {
    assume "fst (post_events_batch now (Some (map Some evs)) m) = Inr r"
    with post er
    show "errors r = replicate (length (filter (\<lambda>e. event_id e = []) evs))
                   (''unknown'', ''event_id is required'')"
      by simp
  }
  let ?ys = "filter (\<lambda>e. event_id e \<noteq> []) evs"
  let ?r1 = "\<lparr>processed = length (map Some ?ys), created = 0, updated = 0, errors = []\<rparr>"
  obtain t2 r2 m2 where run2: "events_batch_loop now (map Some ?ys) (?r1, m) = (t2, r2, m2)"
    by (cases "events_batch_loop now (map Some ?ys) (?r1, m)")
  from events_batch_loop_objects_finish [of now ?ys "(?r1, m)"] run2 have t2: "t2 = None" by simp
  have "m' = m2"
    using events_batch_loop_objects_store_skips [of now evs ?r0 m]
      events_batch_loop_objects_store_any_response [of now ?ys ?r0 m ?r1] run run2
    by simp
  then show "snd (post_events_batch now (Some (map Some evs)) m)
       = snd (post_events_batch now (Some (map Some (filter (\<lambda>e. event_id e \<noteq> []) evs))) m)"
    using run run2 t t2 by (simp add: post_events_batch_def)
next
  assume "event_id A \<noteq> [] \<and> event_id B \<noteq> [] \<and> event_id A \<noteq> event_id B \<and> event_id A' = event_id A
        \<and> map_of m (event_id A) = None \<and> map_of m (event_id B) = None"
  then have h: "event_id A \<noteq> []" "event_id B \<noteq> []" "event_id A \<noteq> event_id B"
    "event_id B \<noteq> event_id A" "event_id A' = event_id A"
    "map_of m (event_id A) = None" "map_of m (event_id B) = None"
    by auto
  have s1: "AList.update (event_id A)
              (A\<lparr>server_event.created_at := now, server_event.updated_at := now\<rparr>) m
            = m @ [(event_id A, A\<lparr>server_event.created_at := now, server_event.updated_at := now\<rparr>)]"
    using h by (simp add: update_absent_appends)
  have s2: "AList.update (event_id B)
              (B\<lparr>server_event.created_at := now, server_event.updated_at := now\<rparr>)
              (m @ [(event_id A, A\<lparr>server_event.created_at := now, server_event.updated_at := now\<rparr>)])
            = m @ [(event_id A, A\<lparr>server_event.created_at := now, server_event.updated_at := now\<rparr>),
                   (event_id B, B\<lparr>server_event.created_at := now, server_event.updated_at := now\<rparr>)]"
    using h by (simp add: update_past_prefix)
  have s3: "AList.update (event_id A) (A'\<lparr>server_event.updated_at := now\<rparr>)
              (m @ [(event_id A, A\<lparr>server_event.created_at := now, server_event.updated_at := now\<rparr>),
                   (event_id B, B\<lparr>server_event.created_at := now, server_event.updated_at := now\<rparr>)])
            = m @ [(event_id A, A'\<lparr>server_event.updated_at := now\<rparr>),
                   (event_id B, B\<lparr>server_event.created_at := now, server_event.updated_at := now\<rparr>)]"
    using h by (simp add: update_past_prefix)
  have l2: "map_of (m @ [(event_id A,
                A\<lparr>server_event.created_at := now, server_event.updated_at := now\<rparr>)]) (event_id B)
            = None"
    using h by (simp add: map_add_def)
  have l3: "map_of (m @ [(event_id A, A\<lparr>server_event.created_at := now, server_event.updated_at := now\<rparr>),
                   (event_id B, B\<lparr>server_event.created_at := now, server_event.updated_at := now\<rparr>)])
              (event_id A)
            = Some (A\<lparr>server_event.created_at := now, server_event.updated_at := now\<rparr>)"
    using h by (simp add: map_add_def)
  show run: "post_events_batch now (Some [Some A, Some B, Some A']) m
        = (Inr \<lparr>processed = 3, created = 2, updated = 1, errors = []\<rparr>,
           m @ [(event_id A, A'\<lparr>server_event.updated_at := now\<rparr>),
                (event_id B, B\<lparr>server_event.created_at := now, server_event.updated_at := now\<rparr>)])"
    using h by (simp add: post_events_batch_def s1 s2 s3 l2 l3 del: map_of_append)
  show "length (snd (post_events_batch now (Some [Some A, Some B, Some A']) m)) = length m + 2"
    by (simp add: run)
  show "map_of (snd (post_events_batch now (Some [Some A, Some B, Some A']) m)) (event_id A)
          = Some (A'\<lparr>server_event.updated_at := now\<rparr>)"
    using h by (simp add: run map_add_def)
qed

text \<open>
  Claim C7. The request array is \<^verbatim>\<open>[EVT-001, null, EVT-002]\<close>, on an empty store. The
  first record is created. On \<^verbatim>\<open>null\<close> the \<^verbatim>\<open>try\<close> block throws and the \<^verbatim>\<open>catch\<close>
  clause throws again, so the failure of this record ends the loop: the request is
  answered with status 500 and no tallies, and \<^verbatim>\<open>EVT-002\<close> is never stored. Without the
  \<^verbatim>\<open>null\<close> both records are created. The faults endpoint does the same.
\<close>

theorem batch_upsert_null_record_aborts:
  "post_events_batch 500
      (Some [Some (sample_event ''EVT-001'' ''TRAC001'' 100 PASS), None,
             Some (sample_event ''EVT-002'' ''TRAC002'' 110 FAIL)]) []
     = (Inl (Status500 ''Internal server error''),
        [(''EVT-001'', (sample_event ''EVT-001'' ''TRAC001'' 100 PASS)
                         \<lparr>server_event.created_at := 500, server_event.updated_at := 500\<rparr>)])
   \<and> map_of (snd (post_events_batch 500
      (Some [Some (sample_event ''EVT-001'' ''TRAC001'' 100 PASS), None,
             Some (sample_event ''EVT-002'' ''TRAC002'' 110 FAIL)]) [])) ''EVT-002'' = None
   \<and> post_events_batch 500
      (Some [Some (sample_event ''EVT-001'' ''TRAC001'' 100 PASS),
             Some (sample_event ''EVT-002'' ''TRAC002'' 110 FAIL)]) []
     = (Inr \<lparr>processed = 2, created = 2, updated = 0, errors = []\<rparr>,
        [(''EVT-001'', (sample_event ''EVT-001'' ''TRAC001'' 100 PASS)
                         \<lparr>server_event.created_at := 500, server_event.updated_at := 500\<rparr>),
         (''EVT-002'', (sample_event ''EVT-002'' ''TRAC002'' 110 FAIL)
                         \<lparr>server_event.created_at := 500, server_event.updated_at := 500\<rparr>)])
   \<and> post_faults_batch 500
      (Some [None, Some (sample_fault ''FLT-001'' ''TRAC001'' 100)]) []
     = (Inl (Status500 ''Internal server error''), [])"
  by (simp add: post_events_batch_def post_faults_batch_def sample_event_def sample_fault_def)


section \<open>Repeated upserts and \<^verbatim>\<open>created_at\<close>\<close>

text \<open>
  Claim C1. The event \<^verbatim>\<open>EVT-001\<close>, whose own \<^verbatim>\<open>created_at\<close> is 100, is posted to an
  empty store at time 200 and again, unchanged, at time 300. After the first request the
  stored \<^verbatim>\<open>created_at\<close> is 200, the value that request assigned. After the second
  there is still a single record and its \<^verbatim>\<open>updated_at\<close> is 300, but its
  \<^verbatim>\<open>created_at\<close> is 100, the payload's value: the update branch stores
  \<^verbatim>\<open>{ ...event, updated_at: now }\<close> and does not keep \<^verbatim>\<open>existing.created_at\<close>. The
  batch endpoint does the same.
\<close>

theorem upsert_replaces_created_at:
  "map_of (snd (post_event 200 (sample_event ''EVT-001'' ''TRAC001'' 100 PASS) [])) ''EVT-001''
     = Some ((sample_event ''EVT-001'' ''TRAC001'' 100 PASS)
               \<lparr>server_event.created_at := 200, server_event.updated_at := 200\<rparr>)
   \<and> snd (post_event 300 (sample_event ''EVT-001'' ''TRAC001'' 100 PASS)
            (snd (post_event 200 (sample_event ''EVT-001'' ''TRAC001'' 100 PASS) [])))
     = [(''EVT-001'', (sample_event ''EVT-001'' ''TRAC001'' 100 PASS)\<lparr>server_event.updated_at := 300\<rparr>)]
   \<and> server_event.created_at
        ((sample_event ''EVT-001'' ''TRAC001'' 100 PASS)\<lparr>server_event.updated_at := 300\<rparr>) = 100
   \<and> snd (post_events_batch 300 (Some [Some (sample_event ''EVT-001'' ''TRAC001'' 100 PASS)])
            (snd (post_events_batch 200 (Some [Some (sample_event ''EVT-001'' ''TRAC001'' 100 PASS)]) [])))
     = [(''EVT-001'', (sample_event ''EVT-001'' ''TRAC001'' 100 PASS)\<lparr>server_event.updated_at := 300\<rparr>)]"
  by (simp add: post_event_def post_events_batch_def sample_event_def Let_def)


section \<open>How the entry points of the sync engine end\<close>











section \<open>Two invocations of \<^verbatim>\<open>syncQueue\<close> at once\<close>

text \<open>
  The resumptions of one invocation, run without another in between, are the method
  \<^const>\<open>syncQueue\<close>.
\<close>

lemma resume_alone_is_syncQueue:
  "fst (run ev now [True, True, True, True] ((Called, b), c, sent))
     = (Settled (fst (syncQueue ev now c)), b)
   \<and> fst (snd (run ev now [True, True, True, True] ((Called, b), c, sent)))
     = snd (syncQueue ev now c)"
  by (simp add: syncQueue_def Let_def split: sum.splits option.splits)

text \<open>An invocation that finds the flag set returns at once and changes nothing.\<close>

lemma resume_called_while_in_progress:
  "syncInProgress c \<Longrightarrow> resume ev now Called (c, sent) = (Settled None, c, sent)"
  by simp

text \<open>
  Claim C5. One event is pending. The first invocation is called and suspends at
  \<^verbatim>\<open>await this.db.getReporter()\<close>; \<^verbatim>\<open>syncInProgress\<close> is set only after that await.
  The second invocation is called now, while the first is in flight, finds the flag
  unset and suspends at the same place. Both resume, set the flag, read the same pending
  event and post it: two \<^verbatim>\<open>POST /events/batch\<close> requests carry \<^verbatim>\<open>EVT-001\<close>, and both
  invocations are inside \<^verbatim>\<open>syncEvents\<close> at the same time.
\<close>

theorem overlapping_syncQueue_uploads_twice:
  "run sample_env 500 [True]
     ((Called, Called),
      sample_client [] [(''EVT-001'', sample_client_event ''EVT-001'' ''TRAC001'' 100 FAIL PENDING)] []
        True False,
      [])
   = ((AwaitReporter, Called),
      sample_client [] [(''EVT-001'', sample_client_event ''EVT-001'' ''TRAC001'' 100 FAIL PENDING)] []
        True False,
      [])
   \<and> run sample_env 500 [True, False, True, False, True, False]
     ((Called, Called),
      sample_client [] [(''EVT-001'', sample_client_event ''EVT-001'' ''TRAC001'' 100 FAIL PENDING)] []
        True False,
      [])
   = ((AwaitEventsUpload [sample_client_event ''EVT-001'' ''TRAC001'' 100 FAIL PENDING],
       AwaitEventsUpload [sample_client_event ''EVT-001'' ''TRAC001'' 100 FAIL PENDING]),
      (sample_client [] [(''EVT-001'', sample_client_event ''EVT-001'' ''TRAC001'' 100 FAIL PENDING)] []
        True False)
        \<lparr>syncInProgress := True, syncState := syncing,
          syncMessage := ''Uploading pending checks...''\<rparr>,
      [[sample_event ''EVT-001'' ''TRAC001'' 100 FAIL], [sample_event ''EVT-001'' ''TRAC001'' 100 FAIL]])"
  by (simp add: getReporter_def getReporter_try_def getMeta_def sample_env_def sample_client_def
      getPendingEvents_def sample_client_event_def sample_event_def server_event.extend_def
      server_event.truncate_def)


section \<open>The tables a queue drain leaves alone\<close>

lemma fold_keeps:
  "(\<And>x s. g (f x s) = g s) \<Longrightarrow> g (fold f xs s) = g s"
  by (induction xs arbitrary: s) simp_all

lemma refreshPendingCounts_tables:
  "assets (refreshPendingCounts c) = assets c"
  "events (refreshPendingCounts c) = events c"
  "faults (refreshPendingCounts c) = faults c"
  by (simp_all add: refreshPendingCounts_def)

lemma updateEventSyncStatus_frame:
  "assets (updateEventSyncStatus now k st err c) = assets c"
  "faults (updateEventSyncStatus now k st err c) = faults c"
  by (simp_all add: updateEventSyncStatus_def refreshPendingCounts_def)

lemma updateFaultSyncStatus_frame:
  "assets (updateFaultSyncStatus now k st err c) = assets c"
  "events (updateFaultSyncStatus now k st err c) = events c"
  by (simp_all add: updateFaultSyncStatus_def refreshPendingCounts_def)

lemma syncEvents_frame:
  "assets (snd (syncEvents ev now evs c)) = assets c"
  "faults (snd (syncEvents ev now evs c)) = faults c"
  by (simp_all add: syncEvents_def Let_def fold_keeps updateEventSyncStatus_frame split: sum.splits)

lemma syncFaults_frame:
  "assets (snd (syncFaults ev now fs c)) = assets c"
  "events (snd (syncFaults ev now fs c)) = events c"
  by (simp_all add: syncFaults_def Let_def fold_keeps updateFaultSyncStatus_frame split: sum.splits)

lemma refresh_frame:
  "assets (refreshFaultsForAsset ev a c) = assets c"
  "events (refreshFaultsForAsset ev a c) = events c"
  "assets (refreshLastFailedCheckForAsset ev a c) = assets c"
  "events (refreshLastFailedCheckForAsset ev a c) = events c"
  by (simp_all add: refreshFaultsForAsset_def refreshLastFailedCheckForAsset_def
      replaceSyncedFaultsForAsset_def saveLastFailedCheck_def Let_def split: sum.splits option.splits)

lemma setMeta_frame:
  "assets (setMeta key v c) = assets c"
  "events (setMeta key v c) = events c"
  by (simp_all add: setMeta_def Let_def)

lemma refresh_all_frame:
  "assets (fold (\<lambda>assetId s. refreshLastFailedCheckForAsset ev assetId
                    (refreshFaultsForAsset ev assetId s)) xs c) = assets c"
  "events (fold (\<lambda>assetId s. refreshLastFailedCheckForAsset ev assetId
                    (refreshFaultsForAsset ev assetId s)) xs c) = events c"
  by (rule fold_keeps, simp add: refresh_frame)+

lemma syncQueue_after_events_frame:
  "assets (snd (syncQueue_after_events ev now pe r)) = assets (snd r)"
  "events (snd (syncQueue_after_events ev now pe r)) = events (snd r)"
proof -
  obtain t c1 where r: "r = (t, c1)" by (cases r)
  obtain t2 c2 where f: "syncFaults ev now (getPendingFaults c1) c1 = (t2, c2)"
    by (cases "syncFaults ev now (getPendingFaults c1) c1")
  from syncFaults_frame [of ev now "getPendingFaults c1" c1] f
  have c2: "assets c2 = assets c1" "events c2 = events c1" by simp_all
  show "assets (snd (syncQueue_after_events ev now pe r)) = assets (snd r)"
    unfolding r
    by (cases t; cases t2)
       (simp_all add: syncQueue_after_events_def Let_def f c2 refresh_all_frame setMeta_frame)
  show "events (snd (syncQueue_after_events ev now pe r)) = events (snd r)"
    unfolding r
    by (cases t; cases t2)
       (simp_all add: syncQueue_after_events_def Let_def f c2 refresh_all_frame setMeta_frame)
qed

lemma syncQueue_settle_frame:
  "assets (syncQueue_settle r) = assets (snd r)"
  "events (syncQueue_settle r) = events (snd r)"
  by (simp_all add: syncQueue_settle_def split: prod.splits option.splits)

lemma syncQueue_assets: "assets (snd (syncQueue ev now c)) = assets c"
  by (simp add: syncQueue_def Let_def syncQueue_settle_frame syncQueue_after_events_frame
      syncEvents_frame split: sum.splits option.splits)


section \<open>The asset table after a pull\<close>

lemma map_of_bulkPut:
  "map_of (bulkPut key rows table) = map_of table ++ map_of (rev (map (\<lambda>r. (key r, r)) rows))"
proof (induction rows arbitrary: table)
  case Nil
  then show ?case by (simp add: bulkPut_def)
next
  case (Cons r rows)
  have "map_of (bulkPut key (r # rows) table)
          = map_of (bulkPut key rows (AList.update (key r) r table))"
    by (simp add: bulkPut_def)
  also have "\<dots> = (map_of table)(key r \<mapsto> r) ++ map_of (rev (map (\<lambda>r. (key r, r)) rows))"
    by (rule ext) (auto simp: Cons.IH update_conv' map_add_def split: option.splits)
  also have "\<dots> = map_of table ++ map_of (rev (map (\<lambda>r. (key r, r)) (r # rows)))"
    by (rule ext) (simp add: map_add_def split: option.splits)
  finally show ?case .
qed

lemma fetchLastFailedChecks_assets:
  "assets (fetchLastFailedChecksForAllAssets ev as c) = assets c"
proof -
  have "\<And>s. assets (fold (\<lambda>asset. saveLastFailedCheck (Asset.asset_id asset)
              (api_getLastFailedCheck ev (Asset.asset_id asset))) as s) = assets s"
    by (rule fold_keeps) (simp add: saveLastFailedCheck_def split: option.splits)
  then show ?thesis
    by (simp add: fetchLastFailedChecksForAllAssets_def clearLastFailedChecksCache_def)
qed

lemma initialSync_assets:
  assumes "isOnline c" "api_getAssets ev = Inr as" "api_getAllChecklists ev = Inr cls"
  shows "assets (snd (initialSync ev now c)) = bulkPut Asset.asset_id as (assets c)"
proof -
  let ?c2 = "saveChecklists cls (saveAssets as (c\<lparr>syncState := syncing, syncMessage := ''Syncing data...''\<rparr>))"
  obtain t c3 where q: "syncQueue ev now ?c2 = (t, c3)" by (cases "syncQueue ev now ?c2")
  from syncQueue_assets [of ev now ?c2] q
  have c3: "assets c3 = bulkPut Asset.asset_id as (assets c)"
    by (simp add: saveChecklists_def saveAssets_def Let_def)
  show ?thesis
    using assms
    by (cases t) (simp_all add: initialSync_def initialSync_try_def q c3 Let_def
          fetchLastFailedChecks_assets setMeta_frame)
qed

text \<open>
  Claim C9, as amended. On each \<^verbatim>\<open>initialSync\<close> pull that gets the reference data, the
  server's assets are upserted into the local \<^verbatim>\<open>assets\<close> table (\<^verbatim>\<open>bulkPut\<close>): at the
  end of the reference-data step and of \<^verbatim>\<open>initialSync\<close> every asset of the response is
  stored under its \<^verbatim>\<open>asset_id\<close> (the last one when an id repeats), and every local asset
  whose id is absent from the response is still there, unchanged.
\<close>

theorem initialSync_upserts_assets:
  "isOnline c \<and> api_getAssets ev = Inr as \<and> api_getAllChecklists ev = Inr cls \<longrightarrow>
     assets (saveAssets as c) = bulkPut Asset.asset_id as (assets c)
   \<and> map_of (assets (snd (initialSync ev now c)))
       = map_of (assets c) ++ map_of (rev (map (\<lambda>a. (Asset.asset_id a, a)) as))
   \<and> (\<forall>k. k \<notin> Asset.asset_id ` set as \<longrightarrow>
         map_of (assets (snd (initialSync ev now c))) k = map_of (assets c) k)
   \<and> (distinct (map Asset.asset_id as) \<longrightarrow>
        (\<forall>a \<in> set as. map_of (assets (snd (initialSync ev now c))) (Asset.asset_id a) = Some a))"
proof (intro impI)
  assume h: "isOnline c \<and> api_getAssets ev = Inr as \<and> api_getAllChecklists ev = Inr cls"
  then have eq: "map_of (assets (snd (initialSync ev now c)))
       = map_of (assets c) ++ map_of (rev (map (\<lambda>a. (Asset.asset_id a, a)) as))"
    by (simp add: initialSync_assets map_of_bulkPut)
  have absent: "\<forall>k. k \<notin> Asset.asset_id ` set as \<longrightarrow>
         map_of (assets (snd (initialSync ev now c))) k = map_of (assets c) k"
  proof (intro allI impI)
    fix k assume "k \<notin> Asset.asset_id ` set as"
    then have "map_of (rev (map (\<lambda>a. (Asset.asset_id a, a)) as)) k = None"
      by (simp add: map_of_eq_None_iff image_image)
    then show "map_of (assets (snd (initialSync ev now c))) k = map_of (assets c) k"
      by (simp add: eq map_add_def)
  qed
  have present: "distinct (map Asset.asset_id as) \<longrightarrow>
        (\<forall>a \<in> set as. map_of (assets (snd (initialSync ev now c))) (Asset.asset_id a) = Some a)"
  proof (intro impI ballI)
    fix a assume d: "distinct (map Asset.asset_id as)" and a: "a \<in> set as"
    have "distinct (map fst (rev (map (\<lambda>a. (Asset.asset_id a, a)) as)))"
      using d by (simp add: rev_map [symmetric] comp_def)
    moreover have "(Asset.asset_id a, a) \<in> set (rev (map (\<lambda>a. (Asset.asset_id a, a)) as))"
      using a by auto
    ultimately have "map_of (rev (map (\<lambda>a. (Asset.asset_id a, a)) as)) (Asset.asset_id a) = Some a"
      by (rule map_of_is_SomeI)
    then show "map_of (assets (snd (initialSync ev now c))) (Asset.asset_id a) = Some a"
      by (simp add: eq map_add_def)
  qed
  from eq absent present
  show "assets (saveAssets as c) = bulkPut Asset.asset_id as (assets c)
   \<and> map_of (assets (snd (initialSync ev now c)))
       = map_of (assets c) ++ map_of (rev (map (\<lambda>a. (Asset.asset_id a, a)) as))
   \<and> (\<forall>k. k \<notin> Asset.asset_id ` set as \<longrightarrow>
         map_of (assets (snd (initialSync ev now c))) k = map_of (assets c) k)
   \<and> (distinct (map Asset.asset_id as) \<longrightarrow>
        (\<forall>a \<in> set as. map_of (assets (snd (initialSync ev now c))) (Asset.asset_id a) = Some a))"
    by (simp add: saveAssets_def)
qed

text \<open>
  Claim C9 as stated fails: the local store holds \<^verbatim>\<open>OLD001\<close>, the server answers with
  \<^verbatim>\<open>TRAC001\<close> alone, and after \<^verbatim>\<open>initialSync\<close> the local table holds both.
\<close>

theorem initialSync_keeps_absent_asset:
  "map snd (assets (snd (initialSync
       (sample_env_assets [sample_asset ''TRAC001'' ''John Deere 8R 410'']) 500
       (sample_client [(''OLD001'', sample_asset ''OLD001'' ''Retired tractor'')] [] [] True False))))
     = [sample_asset ''OLD001'' ''Retired tractor'', sample_asset ''TRAC001'' ''John Deere 8R 410'']
   \<and> map_of (assets (snd (initialSync
       (sample_env_assets [sample_asset ''TRAC001'' ''John Deere 8R 410'']) 500
       (sample_client [(''OLD001'', sample_asset ''OLD001'' ''Retired tractor'')] [] [] True False))))
       ''OLD001''
     = Some (sample_asset ''OLD001'' ''Retired tractor'')"
proof -
  have "assets (snd (initialSync
       (sample_env_assets [sample_asset ''TRAC001'' ''John Deere 8R 410'']) 500
       (sample_client [(''OLD001'', sample_asset ''OLD001'' ''Retired tractor'')] [] [] True False)))
     = bulkPut Asset.asset_id [sample_asset ''TRAC001'' ''John Deere 8R 410'']
         [(''OLD001'', sample_asset ''OLD001'' ''Retired tractor'')]"
    using initialSync_assets [of "sample_client [(''OLD001'', sample_asset ''OLD001'' ''Retired tractor'')] [] [] True False"
        "sample_env_assets [sample_asset ''TRAC001'' ''John Deere 8R 410'']"
        "[sample_asset ''TRAC001'' ''John Deere 8R 410'']" "[]" 500]
    by (simp add: sample_client_def sample_env_assets_def sample_env_def)
  then show ?thesis
    by (simp add: bulkPut_def sample_asset_def)
qed

theorem initialSync_upserts_assets_witness:
  "isOnline (sample_client [(''OLD001'', sample_asset ''OLD001'' ''Retired tractor'')] [] [] True False)
   \<and> api_getAssets (sample_env_assets [sample_asset ''TRAC001'' ''John Deere 8R 410''])
       = Inr [sample_asset ''TRAC001'' ''John Deere 8R 410'']
   \<and> api_getAllChecklists (sample_env_assets [sample_asset ''TRAC001'' ''John Deere 8R 410'']) = Inr []
   \<and> ''OLD001'' \<notin> Asset.asset_id ` set [sample_asset ''TRAC001'' ''John Deere 8R 410'']
   \<and> distinct (map Asset.asset_id [sample_asset ''TRAC001'' ''John Deere 8R 410''])
   \<and> map_of (assets (snd (initialSync
       (sample_env_assets [sample_asset ''TRAC001'' ''John Deere 8R 410'']) 500
       (sample_client [(''OLD001'', sample_asset ''OLD001'' ''Retired tractor'')] [] [] True False))))
       ''OLD001''
     = map_of (assets (sample_client [(''OLD001'', sample_asset ''OLD001'' ''Retired tractor'')] [] [] True False))
         ''OLD001''
   \<and> map_of (assets (snd (initialSync
       (sample_env_assets [sample_asset ''TRAC001'' ''John Deere 8R 410'']) 500
       (sample_client [(''OLD001'', sample_asset ''OLD001'' ''Retired tractor'')] [] [] True False))))
       (Asset.asset_id (sample_asset ''TRAC001'' ''John Deere 8R 410''))
     = Some (sample_asset ''TRAC001'' ''John Deere 8R 410'')"
proof -
  have h: "isOnline (sample_client [(''OLD001'', sample_asset ''OLD001'' ''Retired tractor'')] [] [] True False)
   \<and> api_getAssets (sample_env_assets [sample_asset ''TRAC001'' ''John Deere 8R 410''])
       = Inr [sample_asset ''TRAC001'' ''John Deere 8R 410'']
   \<and> api_getAllChecklists (sample_env_assets [sample_asset ''TRAC001'' ''John Deere 8R 410'']) = Inr []"
    by (simp add: sample_client_def sample_env_assets_def sample_env_def)
  have k: "''OLD001'' \<notin> Asset.asset_id ` set [sample_asset ''TRAC001'' ''John Deere 8R 410'']"
    by (simp add: sample_asset_def)
  have d: "distinct (map Asset.asset_id [sample_asset ''TRAC001'' ''John Deere 8R 410''])"
    by simp
  have a: "sample_asset ''TRAC001'' ''John Deere 8R 410'' \<in> set [sample_asset ''TRAC001'' ''John Deere 8R 410'']"
    by simp
  from initialSync_upserts_assets
      [of "sample_client [(''OLD001'', sample_asset ''OLD001'' ''Retired tractor'')] [] [] True False"
          "sample_env_assets [sample_asset ''TRAC001'' ''John Deere 8R 410'']"
          "[sample_asset ''TRAC001'' ''John Deere 8R 410'']" "[]" 500]
    h k d a
  show ?thesis by blast
qed


section \<open>How a queue drain marks the records of a batch\<close>

text \<open>
  The row under a key after a series of status updates: the last update that names the
  key decides, and a key that no update names keeps its row.
\<close>

lemma events_updateEventSyncStatus:
  "map_of (events (updateEventSyncStatus now k' st err c)) k
     = (if k = k' then
          map_option (\<lambda>e. e\<lparr>client_event.sync_status := st, client_event.last_error := err,
                              server_event.updated_at := now\<rparr>)
            (map_of (events c) k)
        else map_of (events c) k)"
  by (simp add: updateEventSyncStatus_def refreshPendingCounts_def map_of_map_entry
      split: option.splits)

lemma events_after_marks:
  "map_of (events (fold (\<lambda>x. updateEventSyncStatus now (key x) (st x) (err x)) xs c)) k
     = (case find (\<lambda>x. key x = k) (rev xs) of
          None \<Rightarrow> map_of (events c) k
        | Some x \<Rightarrow>
            map_option (\<lambda>e. e\<lparr>client_event.sync_status := st x, client_event.last_error := err x,
                                server_event.updated_at := now\<rparr>)
              (map_of (events c) k))"
proof (induction xs rule: rev_induct)
  case Nil
  then show ?case by simp
next
  case (snoc x xs)
  show ?case
  proof (cases "key x = k")
    case True
    then show ?thesis
      by (cases "find (\<lambda>x. key x = k) (rev xs)"; cases "map_of (events c) k")
         (simp_all add: events_updateEventSyncStatus snoc.IH)
  next
    case False
    then show ?thesis
      by (simp add: events_updateEventSyncStatus snoc.IH)
  qed
qed

lemma find_fst_None: "find (\<lambda>err. fst err = k) (rev xs) = None \<longleftrightarrow> k \<notin> fst ` set xs"
  by (force simp: find_None_iff)

lemma find_fst_Some:
  "find (\<lambda>err. fst err = k) (rev xs) = Some p \<Longrightarrow> p \<in> set xs \<and> fst p = k"
proof -
  assume "find (\<lambda>err. fst err = k) (rev xs) = Some p"
  then obtain i where "i < length (rev xs)" "fst (rev xs ! i) = k" "p = rev xs ! i"
    unfolding find_Some_iff by blast
  then show ?thesis by (metis nth_mem set_rev)
qed

lemma syncEvents_rejected:
  assumes "api_batchUpsertEvents ev (map server_event.truncate evs) = Inl x"
    and "e \<in> set evs" and "map_of (events c) (event_id e) = Some row"
  shows "fst (syncEvents ev now evs c) = Some x"
    and "map_of (events (snd (syncEvents ev now evs c))) (event_id e)
           = Some (row\<lparr>client_event.sync_status := ERROR,
                       client_event.last_error := Some (message_or x ''Unknown error''),
                       server_event.updated_at := now\<rparr>)"
proof -
  show "fst (syncEvents ev now evs c) = Some x"
    using assms(1) by (simp add: syncEvents_def)
  from assms(2) obtain y where "find (\<lambda>x. event_id x = event_id e) (rev evs) = Some y"
    by (cases "find (\<lambda>x. event_id x = event_id e) (rev evs)") (auto simp: find_None_iff)
  then show "map_of (events (snd (syncEvents ev now evs c))) (event_id e)
           = Some (row\<lparr>client_event.sync_status := ERROR,
                       client_event.last_error := Some (message_or x ''Unknown error''),
                       server_event.updated_at := now\<rparr>)"
    using assms(1,3)
      events_after_marks [where key = event_id and st = "\<lambda>_. ERROR"
        and err = "\<lambda>_. Some (message_or x ''Unknown error'')" and xs = evs and c = c
        and k = "event_id e" and now = now]
    by (simp add: syncEvents_def)
qed

lemma syncEvents_answered:
  assumes "api_batchUpsertEvents ev (map server_event.truncate evs) = Inr res"
    and "e \<in> set evs" and "map_of (events c) (event_id e) = Some row"
  shows "fst (syncEvents ev now evs c) = None"
    and "event_id e \<notin> fst ` set (errors res) \<Longrightarrow>
         map_of (events (snd (syncEvents ev now evs c))) (event_id e)
           = Some (row\<lparr>client_event.sync_status := SYNCED, client_event.last_error := None,
                       server_event.updated_at := now\<rparr>)"
    and "event_id e \<in> fst ` set (errors res) \<Longrightarrow>
         \<exists>msg. (event_id e, msg) \<in> set (errors res) \<and>
           map_of (events (snd (syncEvents ev now evs c))) (event_id e)
             = Some (row\<lparr>client_event.sync_status := ERROR, client_event.last_error := Some msg,
                         server_event.updated_at := now\<rparr>)"
proof -
  let ?successIds = "map event_id
      (filter (\<lambda>e. find (\<lambda>err. fst err = event_id e) (errors res) = None) evs)"
  let ?c1 = "fold (\<lambda>eventId. updateEventSyncStatus now eventId SYNCED None) ?successIds c"
  let ?c2 = "fold (\<lambda>err. updateEventSyncStatus now (fst err) ERROR (Some (snd err))) (errors res) ?c1"
  have run: "syncEvents ev now evs c = (None, ?c2)"
    using assms(1) by (simp add: syncEvents_def Let_def)
  show "fst (syncEvents ev now evs c) = None" by (simp add: run)
  have c1: "map_of (events ?c1) k
      = (case find (\<lambda>x. x = k) (rev ?successIds) of
           None \<Rightarrow> map_of (events c) k
         | Some x \<Rightarrow> map_option (\<lambda>e. e\<lparr>client_event.sync_status := SYNCED,
               client_event.last_error := None, server_event.updated_at := now\<rparr>) (map_of (events c) k))"
    for k
    using events_after_marks [where key = "\<lambda>x. x" and st = "\<lambda>_. SYNCED" and err = "\<lambda>_. None"
        and xs = ?successIds and c = c and k = k and now = now]
    by simp
  have c2: "map_of (events ?c2) k
      = (case find (\<lambda>err. fst err = k) (rev (errors res)) of
           None \<Rightarrow> map_of (events ?c1) k
         | Some x \<Rightarrow> map_option (\<lambda>e. e\<lparr>client_event.sync_status := ERROR,
               client_event.last_error := Some (snd x), server_event.updated_at := now\<rparr>)
               (map_of (events ?c1) k))"
    for k
    using events_after_marks [where key = fst and st = "\<lambda>_. ERROR" and err = "\<lambda>x. Some (snd x)"
        and xs = "errors res" and c = ?c1 and k = k and now = now]
    by simp
  {
    assume no: "event_id e \<notin> fst ` set (errors res)"
    then have "find (\<lambda>err. fst err = event_id e) (errors res) = None"
      by (force simp: find_None_iff)
    with assms(2) have "event_id e \<in> set ?successIds" by auto
    then obtain y where y: "find (\<lambda>x. x = event_id e) (rev ?successIds) = Some y"
      by (cases "find (\<lambda>x. x = event_id e) (rev ?successIds)") (auto simp: find_None_iff)
    from no have n: "find (\<lambda>err. fst err = event_id e) (rev (errors res)) = None"
      by (simp add: find_fst_None)
    show "map_of (events (snd (syncEvents ev now evs c))) (event_id e)
           = Some (row\<lparr>client_event.sync_status := SYNCED, client_event.last_error := None,
                       server_event.updated_at := now\<rparr>)"
      by (simp add: run c2 [of "event_id e"] n c1 [of "event_id e"] y assms(3))
  }
  {
    assume yes: "event_id e \<in> fst ` set (errors res)"
    then obtain p where p: "find (\<lambda>err. fst err = event_id e) (rev (errors res)) = Some p"
      by (cases "find (\<lambda>err. fst err = event_id e) (rev (errors res))") (auto simp: find_fst_None)
    from find_fst_Some [OF p] have pin: "(event_id e, snd p) \<in> set (errors res)"
      by (metis prod.collapse)
    from yes have "event_id e \<notin> set ?successIds"
      by (auto simp: find_None_iff)
    then have s: "find (\<lambda>x. x = event_id e) (rev ?successIds) = None"
      by (simp only: find_None_iff set_rev) blast
    have "map_of (events (snd (syncEvents ev now evs c))) (event_id e)
             = Some (row\<lparr>client_event.sync_status := ERROR, client_event.last_error := Some (snd p),
                         server_event.updated_at := now\<rparr>)"
      by (simp add: run c2 [of "event_id e"] p c1 [of "event_id e"] s assms(3))
    with pin show "\<exists>msg. (event_id e, msg) \<in> set (errors res) \<and>
           map_of (events (snd (syncEvents ev now evs c))) (event_id e)
             = Some (row\<lparr>client_event.sync_status := ERROR, client_event.last_error := Some msg,
                         server_event.updated_at := now\<rparr>)"
      by blast
  }
qed

lemma faults_updateFaultSyncStatus:
  "map_of (faults (updateFaultSyncStatus now k' st err c)) k
     = (if k = k' then
          map_option (\<lambda>e. e\<lparr>client_fault.sync_status := st, client_fault.last_error := err,
                              server_fault.updated_at := now\<rparr>)
            (map_of (faults c) k)
        else map_of (faults c) k)"
  by (simp add: updateFaultSyncStatus_def refreshPendingCounts_def map_of_map_entry
      split: option.splits)

lemma faults_after_marks:
  "map_of (faults (fold (\<lambda>x. updateFaultSyncStatus now (key x) (st x) (err x)) xs c)) k
     = (case find (\<lambda>x. key x = k) (rev xs) of
          None \<Rightarrow> map_of (faults c) k
        | Some x \<Rightarrow>
            map_option (\<lambda>e. e\<lparr>client_fault.sync_status := st x, client_fault.last_error := err x,
                                server_fault.updated_at := now\<rparr>)
              (map_of (faults c) k))"
proof (induction xs rule: rev_induct)
  case Nil
  then show ?case by simp
next
  case (snoc x xs)
  show ?case
  proof (cases "key x = k")
    case True
    then show ?thesis
      by (cases "find (\<lambda>x. key x = k) (rev xs)"; cases "map_of (faults c) k")
         (simp_all add: faults_updateFaultSyncStatus snoc.IH)
  next
    case False
    then show ?thesis
      by (simp add: faults_updateFaultSyncStatus snoc.IH)
  qed
qed

lemma syncFaults_rejected:
  assumes "api_batchUpsertFaults ev (map server_fault.truncate evs) = Inl x"
    and "e \<in> set evs" and "map_of (faults c) (fault_id e) = Some row"
  shows "fst (syncFaults ev now evs c) = Some x"
    and "map_of (faults (snd (syncFaults ev now evs c))) (fault_id e)
           = Some (row\<lparr>client_fault.sync_status := ERROR,
                       client_fault.last_error := Some (message_or x ''Unknown error''),
                       server_fault.updated_at := now\<rparr>)"
proof -
  show "fst (syncFaults ev now evs c) = Some x"
    using assms(1) by (simp add: syncFaults_def)
  from assms(2) obtain y where "find (\<lambda>x. fault_id x = fault_id e) (rev evs) = Some y"
    by (cases "find (\<lambda>x. fault_id x = fault_id e) (rev evs)") (auto simp: find_None_iff)
  then show "map_of (faults (snd (syncFaults ev now evs c))) (fault_id e)
           = Some (row\<lparr>client_fault.sync_status := ERROR,
                       client_fault.last_error := Some (message_or x ''Unknown error''),
                       server_fault.updated_at := now\<rparr>)"
    using assms(1,3)
      faults_after_marks [where key = fault_id and st = "\<lambda>_. ERROR"
        and err = "\<lambda>_. Some (message_or x ''Unknown error'')" and xs = evs and c = c
        and k = "fault_id e" and now = now]
    by (simp add: syncFaults_def)
qed

lemma syncFaults_answered:
  assumes "api_batchUpsertFaults ev (map server_fault.truncate evs) = Inr res"
    and "e \<in> set evs" and "map_of (faults c) (fault_id e) = Some row"
  shows "fst (syncFaults ev now evs c) = None"
    and "fault_id e \<notin> fst ` set (errors res) \<Longrightarrow>
         map_of (faults (snd (syncFaults ev now evs c))) (fault_id e)
           = Some (row\<lparr>client_fault.sync_status := SYNCED, client_fault.last_error := None,
                       server_fault.updated_at := now\<rparr>)"
    and "fault_id e \<in> fst ` set (errors res) \<Longrightarrow>
         \<exists>msg. (fault_id e, msg) \<in> set (errors res) \<and>
           map_of (faults (snd (syncFaults ev now evs c))) (fault_id e)
             = Some (row\<lparr>client_fault.sync_status := ERROR, client_fault.last_error := Some msg,
                         server_fault.updated_at := now\<rparr>)"
proof -
  let ?successFaultIds = "map fault_id
      (filter (\<lambda>e. find (\<lambda>err. fst err = fault_id e) (errors res) = None) evs)"
  let ?c1 = "fold (\<lambda>faultId. updateFaultSyncStatus now faultId SYNCED None) ?successFaultIds c"
  let ?c2 = "fold (\<lambda>err. updateFaultSyncStatus now (fst err) ERROR (Some (snd err))) (errors res) ?c1"
  have run: "syncFaults ev now evs c = (None, ?c2)"
    using assms(1) by (simp add: syncFaults_def Let_def)
  show "fst (syncFaults ev now evs c) = None" by (simp add: run)
  have c1: "map_of (faults ?c1) k
      = (case find (\<lambda>x. x = k) (rev ?successFaultIds) of
           None \<Rightarrow> map_of (faults c) k
         | Some x \<Rightarrow> map_option (\<lambda>e. e\<lparr>client_fault.sync_status := SYNCED,
               client_fault.last_error := None, server_fault.updated_at := now\<rparr>) (map_of (faults c) k))"
    for k
    using faults_after_marks [where key = "\<lambda>x. x" and st = "\<lambda>_. SYNCED" and err = "\<lambda>_. None"
        and xs = ?successFaultIds and c = c and k = k and now = now]
    by simp
  have c2: "map_of (faults ?c2) k
      = (case find (\<lambda>err. fst err = k) (rev (errors res)) of
           None \<Rightarrow> map_of (faults ?c1) k
         | Some x \<Rightarrow> map_option (\<lambda>e. e\<lparr>client_fault.sync_status := ERROR,
               client_fault.last_error := Some (snd x), server_fault.updated_at := now\<rparr>)
               (map_of (faults ?c1) k))"
    for k
    using faults_after_marks [where key = fst and st = "\<lambda>_. ERROR" and err = "\<lambda>x. Some (snd x)"
        and xs = "errors res" and c = ?c1 and k = k and now = now]
    by simp
  {
    assume no: "fault_id e \<notin> fst ` set (errors res)"
    then have "find (\<lambda>err. fst err = fault_id e) (errors res) = None"
      by (force simp: find_None_iff)
    with assms(2) have "fault_id e \<in> set ?successFaultIds" by auto
    then obtain y where y: "find (\<lambda>x. x = fault_id e) (rev ?successFaultIds) = Some y"
      by (cases "find (\<lambda>x. x = fault_id e) (rev ?successFaultIds)") (auto simp: find_None_iff)
    from no have n: "find (\<lambda>err. fst err = fault_id e) (rev (errors res)) = None"
      by (simp add: find_fst_None)
    show "map_of (faults (snd (syncFaults ev now evs c))) (fault_id e)
           = Some (row\<lparr>client_fault.sync_status := SYNCED, client_fault.last_error := None,
                       server_fault.updated_at := now\<rparr>)"
      by (simp add: run c2 [of "fault_id e"] n c1 [of "fault_id e"] y assms(3))
  }
  {
    assume yes: "fault_id e \<in> fst ` set (errors res)"
    then obtain p where p: "find (\<lambda>err. fst err = fault_id e) (rev (errors res)) = Some p"
      by (cases "find (\<lambda>err. fst err = fault_id e) (rev (errors res))") (auto simp: find_fst_None)
    from find_fst_Some [OF p] have pin: "(fault_id e, snd p) \<in> set (errors res)"
      by (metis prod.collapse)
    from yes have "fault_id e \<notin> set ?successFaultIds"
      by (auto simp: find_None_iff)
    then have s: "find (\<lambda>x. x = fault_id e) (rev ?successFaultIds) = None"
      by (simp only: find_None_iff set_rev) blast
    have "map_of (faults (snd (syncFaults ev now evs c))) (fault_id e)
             = Some (row\<lparr>client_fault.sync_status := ERROR, client_fault.last_error := Some (snd p),
                         server_fault.updated_at := now\<rparr>)"
      by (simp add: run c2 [of "fault_id e"] p c1 [of "fault_id e"] s assms(3))
    with pin show "\<exists>msg. (fault_id e, msg) \<in> set (errors res) \<and>
           map_of (faults (snd (syncFaults ev now evs c))) (fault_id e)
             = Some (row\<lparr>client_fault.sync_status := ERROR, client_fault.last_error := Some msg,
                         server_fault.updated_at := now\<rparr>)"
      by blast
  }
qed


text \<open>
  Claim C4. In a queue drain, \<^verbatim>\<open>syncEvents\<close> and \<^verbatim>\<open>syncFaults\<close> mark the stored records
  of their batch as follows. When the batch call rejects, the method rethrows and every
  record of the batch is ERROR with the exception's message as \<^verbatim>\<open>last_error\<close>. When
  the server answers, a record whose id is in the \<^verbatim>\<open>errors\<close> list is ERROR with the
  message of one of its entries, and every other record of the batch is SYNCED.
\<close>

theorem drain_marks_each_record:
  "(api_batchUpsertEvents ev (map server_event.truncate evs) = Inl x \<and> e \<in> set evs
      \<and> map_of (events c) (event_id e) = Some row \<longrightarrow>
      fst (syncEvents ev now evs c) = Some x
      \<and> map_of (events (snd (syncEvents ev now evs c))) (event_id e)
          = Some (row\<lparr>client_event.sync_status := ERROR,
                      client_event.last_error := Some (message_or x ''Unknown error''),
                      server_event.updated_at := now\<rparr>))
   \<and> (api_batchUpsertEvents ev (map server_event.truncate evs) = Inr res \<and> e \<in> set evs
      \<and> map_of (events c) (event_id e) = Some row \<longrightarrow>
      fst (syncEvents ev now evs c) = None
      \<and> (event_id e \<notin> fst ` set (errors res) \<longrightarrow>
           map_of (events (snd (syncEvents ev now evs c))) (event_id e)
             = Some (row\<lparr>client_event.sync_status := SYNCED, client_event.last_error := None,
                         server_event.updated_at := now\<rparr>))
      \<and> (event_id e \<in> fst ` set (errors res) \<longrightarrow>
           (\<exists>msg. (event_id e, msg) \<in> set (errors res) \<and>
              map_of (events (snd (syncEvents ev now evs c))) (event_id e)
                = Some (row\<lparr>client_event.sync_status := ERROR,
                            client_event.last_error := Some msg,
                            server_event.updated_at := now\<rparr>))))
   \<and> (api_batchUpsertFaults ev (map server_fault.truncate fs) = Inl x \<and> f \<in> set fs
      \<and> map_of (faults c) (fault_id f) = Some frow \<longrightarrow>
      fst (syncFaults ev now fs c) = Some x
      \<and> map_of (faults (snd (syncFaults ev now fs c))) (fault_id f)
          = Some (frow\<lparr>client_fault.sync_status := ERROR,
                       client_fault.last_error := Some (message_or x ''Unknown error''),
                       server_fault.updated_at := now\<rparr>))
   \<and> (api_batchUpsertFaults ev (map server_fault.truncate fs) = Inr res \<and> f \<in> set fs
      \<and> map_of (faults c) (fault_id f) = Some frow \<longrightarrow>
      fst (syncFaults ev now fs c) = None
      \<and> (fault_id f \<notin> fst ` set (errors res) \<longrightarrow>
           map_of (faults (snd (syncFaults ev now fs c))) (fault_id f)
             = Some (frow\<lparr>client_fault.sync_status := SYNCED, client_fault.last_error := None,
                          server_fault.updated_at := now\<rparr>))
      \<and> (fault_id f \<in> fst ` set (errors res) \<longrightarrow>
           (\<exists>msg. (fault_id f, msg) \<in> set (errors res) \<and>
              map_of (faults (snd (syncFaults ev now fs c))) (fault_id f)
                = Some (frow\<lparr>client_fault.sync_status := ERROR,
                             client_fault.last_error := Some msg,
                             server_fault.updated_at := now\<rparr>))))
   \<and> message_or (Error m) fallback = m"
  using syncEvents_rejected [of ev evs x e c row now]
    syncEvents_answered [of ev evs res e c row now]
    syncFaults_rejected [of ev fs x f c frow now]
    syncFaults_answered [of ev fs res f c frow now]
  by (simp add: message_or_def)

theorem drain_marks_each_record_witness:
  "api_batchUpsertEvents (sample_env_batch (Inl (Error ''Network error: Unable to connect to server''))) (map server_event.truncate [sample_client_event ''EVT-001'' ''TRAC001'' 100 FAIL PENDING, sample_client_event ''EVT-002'' ''TRAC002'' 110 PASS ERROR]) = Inl (Error ''Network error: Unable to connect to server'')
   \<and> sample_client_event ''EVT-001'' ''TRAC001'' 100 FAIL PENDING \<in> set [sample_client_event ''EVT-001'' ''TRAC001'' 100 FAIL PENDING, sample_client_event ''EVT-002'' ''TRAC002'' 110 PASS ERROR]
   \<and> map_of (events (sample_client [] [(''EVT-001'', sample_client_event ''EVT-001'' ''TRAC001'' 100 FAIL PENDING), (''EVT-002'', sample_client_event ''EVT-002'' ''TRAC002'' 110 PASS ERROR)] [(''FLT-001'', sample_client_fault ''FLT-001'' ''TRAC001'' 100 PENDING)] True False)) (event_id (sample_client_event ''EVT-001'' ''TRAC001'' 100 FAIL PENDING)) = Some (sample_client_event ''EVT-001'' ''TRAC001'' 100 FAIL PENDING)
   \<and> api_batchUpsertEvents (sample_env_batch (Inr \<lparr>processed = 2, created = 1, updated = 0, errors = [(''EVT-002'', ''rejected'')]\<rparr>)) (map server_event.truncate [sample_client_event ''EVT-001'' ''TRAC001'' 100 FAIL PENDING, sample_client_event ''EVT-002'' ''TRAC002'' 110 PASS ERROR]) = Inr \<lparr>processed = 2, created = 1, updated = 0, errors = [(''EVT-002'', ''rejected'')]\<rparr>
   \<and> event_id (sample_client_event ''EVT-001'' ''TRAC001'' 100 FAIL PENDING) \<notin> fst ` set (errors \<lparr>processed = 2, created = 1, updated = 0, errors = [(''EVT-002'', ''rejected'')]\<rparr>)
   \<and> api_batchUpsertFaults (sample_env_batch (Inl (Error ''Network error: Unable to connect to server''))) (map server_fault.truncate [sample_client_fault ''FLT-001'' ''TRAC001'' 100 PENDING]) = Inl (Error ''Network error: Unable to connect to server'')
   \<and> sample_client_fault ''FLT-001'' ''TRAC001'' 100 PENDING \<in> set [sample_client_fault ''FLT-001'' ''TRAC001'' 100 PENDING]
   \<and> map_of (faults (sample_client [] [(''EVT-001'', sample_client_event ''EVT-001'' ''TRAC001'' 100 FAIL PENDING), (''EVT-002'', sample_client_event ''EVT-002'' ''TRAC002'' 110 PASS ERROR)] [(''FLT-001'', sample_client_fault ''FLT-001'' ''TRAC001'' 100 PENDING)] True False)) (fault_id (sample_client_fault ''FLT-001'' ''TRAC001'' 100 PENDING)) = Some (sample_client_fault ''FLT-001'' ''TRAC001'' 100 PENDING)
   \<and> api_batchUpsertFaults (sample_env_batch (Inr \<lparr>processed = 2, created = 1, updated = 0, errors = [(''EVT-002'', ''rejected'')]\<rparr>)) (map server_fault.truncate [sample_client_fault ''FLT-001'' ''TRAC001'' 100 PENDING]) = Inr \<lparr>processed = 2, created = 1, updated = 0, errors = [(''EVT-002'', ''rejected'')]\<rparr>
   \<and> fault_id (sample_client_fault ''FLT-001'' ''TRAC001'' 100 PENDING) \<notin> fst ` set (errors \<lparr>processed = 2, created = 1, updated = 0, errors = [(''EVT-002'', ''rejected'')]\<rparr>)
   \<and> fst (syncEvents (sample_env_batch (Inl (Error ''Network error: Unable to connect to server''))) 500 [sample_client_event ''EVT-001'' ''TRAC001'' 100 FAIL PENDING, sample_client_event ''EVT-002'' ''TRAC002'' 110 PASS ERROR] (sample_client [] [(''EVT-001'', sample_client_event ''EVT-001'' ''TRAC001'' 100 FAIL PENDING), (''EVT-002'', sample_client_event ''EVT-002'' ''TRAC002'' 110 PASS ERROR)] [(''FLT-001'', sample_client_fault ''FLT-001'' ''TRAC001'' 100 PENDING)] True False)) = Some (Error ''Network error: Unable to connect to server'')
   \<and> map_of (events (snd (syncEvents (sample_env_batch (Inl (Error ''Network error: Unable to connect to server''))) 500 [sample_client_event ''EVT-001'' ''TRAC001'' 100 FAIL PENDING, sample_client_event ''EVT-002'' ''TRAC002'' 110 PASS ERROR] (sample_client [] [(''EVT-001'', sample_client_event ''EVT-001'' ''TRAC001'' 100 FAIL PENDING), (''EVT-002'', sample_client_event ''EVT-002'' ''TRAC002'' 110 PASS ERROR)] [(''FLT-001'', sample_client_fault ''FLT-001'' ''TRAC001'' 100 PENDING)] True False)))) (event_id (sample_client_event ''EVT-001'' ''TRAC001'' 100 FAIL PENDING)) = Some ((sample_client_event ''EVT-001'' ''TRAC001'' 100 FAIL PENDING)\<lparr>client_event.sync_status := ERROR, client_event.last_error := Some ''Network error: Unable to connect to server'', server_event.updated_at := 500\<rparr>)
   \<and> fst (syncEvents (sample_env_batch (Inr \<lparr>processed = 2, created = 1, updated = 0, errors = [(''EVT-002'', ''rejected'')]\<rparr>)) 500 [sample_client_event ''EVT-001'' ''TRAC001'' 100 FAIL PENDING, sample_client_event ''EVT-002'' ''TRAC002'' 110 PASS ERROR] (sample_client [] [(''EVT-001'', sample_client_event ''EVT-001'' ''TRAC001'' 100 FAIL PENDING), (''EVT-002'', sample_client_event ''EVT-002'' ''TRAC002'' 110 PASS ERROR)] [(''FLT-001'', sample_client_fault ''FLT-001'' ''TRAC001'' 100 PENDING)] True False)) = None
   \<and> map_of (events (snd (syncEvents (sample_env_batch (Inr \<lparr>processed = 2, created = 1, updated = 0, errors = [(''EVT-002'', ''rejected'')]\<rparr>)) 500 [sample_client_event ''EVT-001'' ''TRAC001'' 100 FAIL PENDING, sample_client_event ''EVT-002'' ''TRAC002'' 110 PASS ERROR] (sample_client [] [(''EVT-001'', sample_client_event ''EVT-001'' ''TRAC001'' 100 FAIL PENDING), (''EVT-002'', sample_client_event ''EVT-002'' ''TRAC002'' 110 PASS ERROR)] [(''FLT-001'', sample_client_fault ''FLT-001'' ''TRAC001'' 100 PENDING)] True False)))) (event_id (sample_client_event ''EVT-001'' ''TRAC001'' 100 FAIL PENDING)) = Some ((sample_client_event ''EVT-001'' ''TRAC001'' 100 FAIL PENDING)\<lparr>client_event.sync_status := SYNCED, client_event.last_error := None, server_event.updated_at := 500\<rparr>)
   \<and> map_of (faults (snd (syncFaults (sample_env_batch (Inl (Error ''Network error: Unable to connect to server''))) 500 [sample_client_fault ''FLT-001'' ''TRAC001'' 100 PENDING] (sample_client [] [(''EVT-001'', sample_client_event ''EVT-001'' ''TRAC001'' 100 FAIL PENDING), (''EVT-002'', sample_client_event ''EVT-002'' ''TRAC002'' 110 PASS ERROR)] [(''FLT-001'', sample_client_fault ''FLT-001'' ''TRAC001'' 100 PENDING)] True False)))) (fault_id (sample_client_fault ''FLT-001'' ''TRAC001'' 100 PENDING)) = Some ((sample_client_fault ''FLT-001'' ''TRAC001'' 100 PENDING)\<lparr>client_fault.sync_status := ERROR, client_fault.last_error := Some ''Network error: Unable to connect to server'', server_fault.updated_at := 500\<rparr>)
   \<and> map_of (faults (snd (syncFaults (sample_env_batch (Inr \<lparr>processed = 2, created = 1, updated = 0, errors = [(''EVT-002'', ''rejected'')]\<rparr>)) 500 [sample_client_fault ''FLT-001'' ''TRAC001'' 100 PENDING] (sample_client [] [(''EVT-001'', sample_client_event ''EVT-001'' ''TRAC001'' 100 FAIL PENDING), (''EVT-002'', sample_client_event ''EVT-002'' ''TRAC002'' 110 PASS ERROR)] [(''FLT-001'', sample_client_fault ''FLT-001'' ''TRAC001'' 100 PENDING)] True False)))) (fault_id (sample_client_fault ''FLT-001'' ''TRAC001'' 100 PENDING)) = Some ((sample_client_fault ''FLT-001'' ''TRAC001'' 100 PENDING)\<lparr>client_fault.sync_status := SYNCED, client_fault.last_error := None, server_fault.updated_at := 500\<rparr>)"
proof -
  have h: "api_batchUpsertEvents (sample_env_batch (Inl (Error ''Network error: Unable to connect to server''))) (map server_event.truncate [sample_client_event ''EVT-001'' ''TRAC001'' 100 FAIL PENDING, sample_client_event ''EVT-002'' ''TRAC002'' 110 PASS ERROR]) = Inl (Error ''Network error: Unable to connect to server'')
   \<and> sample_client_event ''EVT-001'' ''TRAC001'' 100 FAIL PENDING \<in> set [sample_client_event ''EVT-001'' ''TRAC001'' 100 FAIL PENDING, sample_client_event ''EVT-002'' ''TRAC002'' 110 PASS ERROR]
   \<and> map_of (events (sample_client [] [(''EVT-001'', sample_client_event ''EVT-001'' ''TRAC001'' 100 FAIL PENDING), (''EVT-002'', sample_client_event ''EVT-002'' ''TRAC002'' 110 PASS ERROR)] [(''FLT-001'', sample_client_fault ''FLT-001'' ''TRAC001'' 100 PENDING)] True False)) (event_id (sample_client_event ''EVT-001'' ''TRAC001'' 100 FAIL PENDING)) = Some (sample_client_event ''EVT-001'' ''TRAC001'' 100 FAIL PENDING)
   \<and> api_batchUpsertEvents (sample_env_batch (Inr \<lparr>processed = 2, created = 1, updated = 0, errors = [(''EVT-002'', ''rejected'')]\<rparr>)) (map server_event.truncate [sample_client_event ''EVT-001'' ''TRAC001'' 100 FAIL PENDING, sample_client_event ''EVT-002'' ''TRAC002'' 110 PASS ERROR]) = Inr \<lparr>processed = 2, created = 1, updated = 0, errors = [(''EVT-002'', ''rejected'')]\<rparr>
   \<and> event_id (sample_client_event ''EVT-001'' ''TRAC001'' 100 FAIL PENDING) \<notin> fst ` set (errors \<lparr>processed = 2, created = 1, updated = 0, errors = [(''EVT-002'', ''rejected'')]\<rparr>)
   \<and> api_batchUpsertFaults (sample_env_batch (Inl (Error ''Network error: Unable to connect to server''))) (map server_fault.truncate [sample_client_fault ''FLT-001'' ''TRAC001'' 100 PENDING]) = Inl (Error ''Network error: Unable to connect to server'')
   \<and> sample_client_fault ''FLT-001'' ''TRAC001'' 100 PENDING \<in> set [sample_client_fault ''FLT-001'' ''TRAC001'' 100 PENDING]
   \<and> map_of (faults (sample_client [] [(''EVT-001'', sample_client_event ''EVT-001'' ''TRAC001'' 100 FAIL PENDING), (''EVT-002'', sample_client_event ''EVT-002'' ''TRAC002'' 110 PASS ERROR)] [(''FLT-001'', sample_client_fault ''FLT-001'' ''TRAC001'' 100 PENDING)] True False)) (fault_id (sample_client_fault ''FLT-001'' ''TRAC001'' 100 PENDING)) = Some (sample_client_fault ''FLT-001'' ''TRAC001'' 100 PENDING)
   \<and> api_batchUpsertFaults (sample_env_batch (Inr \<lparr>processed = 2, created = 1, updated = 0, errors = [(''EVT-002'', ''rejected'')]\<rparr>)) (map server_fault.truncate [sample_client_fault ''FLT-001'' ''TRAC001'' 100 PENDING]) = Inr \<lparr>processed = 2, created = 1, updated = 0, errors = [(''EVT-002'', ''rejected'')]\<rparr>
   \<and> fault_id (sample_client_fault ''FLT-001'' ''TRAC001'' 100 PENDING) \<notin> fst ` set (errors \<lparr>processed = 2, created = 1, updated = 0, errors = [(''EVT-002'', ''rejected'')]\<rparr>)"
    by (simp add: sample_env_batch_def sample_env_def sample_client_def sample_client_event_def
        sample_client_fault_def sample_event_def sample_fault_def server_event.extend_def
        server_fault.extend_def)
  have m: "message_or (Error ''Network error: Unable to connect to server'') ''Unknown error'' = ''Network error: Unable to connect to server''"
    by (simp add: message_or_def)
  from h
    drain_marks_each_record [where ev = "sample_env_batch (Inl (Error ''Network error: Unable to connect to server''))" and evs = "[sample_client_event ''EVT-001'' ''TRAC001'' 100 FAIL PENDING, sample_client_event ''EVT-002'' ''TRAC002'' 110 PASS ERROR]" and x = "Error ''Network error: Unable to connect to server''"
      and e = "sample_client_event ''EVT-001'' ''TRAC001'' 100 FAIL PENDING" and c = "sample_client [] [(''EVT-001'', sample_client_event ''EVT-001'' ''TRAC001'' 100 FAIL PENDING), (''EVT-002'', sample_client_event ''EVT-002'' ''TRAC002'' 110 PASS ERROR)] [(''FLT-001'', sample_client_fault ''FLT-001'' ''TRAC001'' 100 PENDING)] True False" and row = "sample_client_event ''EVT-001'' ''TRAC001'' 100 FAIL PENDING" and now = 500
      and fs = "[sample_client_fault ''FLT-001'' ''TRAC001'' 100 PENDING]" and f = "sample_client_fault ''FLT-001'' ''TRAC001'' 100 PENDING" and frow = "sample_client_fault ''FLT-001'' ''TRAC001'' 100 PENDING" and res = "\<lparr>processed = 2, created = 1, updated = 0, errors = [(''EVT-002'', ''rejected'')]\<rparr>"]
    drain_marks_each_record [where ev = "sample_env_batch (Inr \<lparr>processed = 2, created = 1, updated = 0, errors = [(''EVT-002'', ''rejected'')]\<rparr>)" and evs = "[sample_client_event ''EVT-001'' ''TRAC001'' 100 FAIL PENDING, sample_client_event ''EVT-002'' ''TRAC002'' 110 PASS ERROR]" and x = "Error ''Network error: Unable to connect to server''"
      and e = "sample_client_event ''EVT-001'' ''TRAC001'' 100 FAIL PENDING" and c = "sample_client [] [(''EVT-001'', sample_client_event ''EVT-001'' ''TRAC001'' 100 FAIL PENDING), (''EVT-002'', sample_client_event ''EVT-002'' ''TRAC002'' 110 PASS ERROR)] [(''FLT-001'', sample_client_fault ''FLT-001'' ''TRAC001'' 100 PENDING)] True False" and row = "sample_client_event ''EVT-001'' ''TRAC001'' 100 FAIL PENDING" and now = 500
      and fs = "[sample_client_fault ''FLT-001'' ''TRAC001'' 100 PENDING]" and f = "sample_client_fault ''FLT-001'' ''TRAC001'' 100 PENDING" and frow = "sample_client_fault ''FLT-001'' ''TRAC001'' 100 PENDING" and res = "\<lparr>processed = 2, created = 1, updated = 0, errors = [(''EVT-002'', ''rejected'')]\<rparr>"]
  show ?thesis unfolding m by blast
qed


section \<open>Records that are SYNCED\<close>







end
